theory Spec2Isabelle
  imports Complex_Main
begin

section \<open>Data model (api/Models/Dashboard.cs)\<close>

text \<open>
  The C# model classes become records with the source's property names. Several classes
  share property names (\<open>Id\<close>, \<open>TestId\<close>, \<open>ClassAverage\<close>, ...); such a field is written
  with its record's name in front (\<open>StudentScore.TestId\<close>). A C# \<open>int\<close> property is an
  \<open>int\<close>; a \<open>double\<close> property is a \<open>real\<close>: binary floating point is idealised as exact
  arithmetic.
\<close>

record School =
  Id :: string
  Name :: string
  District :: string

record Test =
  Id :: string
  Name :: string
  Subject :: string
  MaxScore :: int

record Student =
  Id :: string
  FirstName :: string
  LastName :: string
  StudentId :: string
  Grade :: string

record StudentScore =
  StudentId :: string
  TestId :: string
  Score :: int
  Percentile :: int
  TestDate :: string

record AggregateScore =
  TestId :: string
  SchoolYear :: string
  ClassAverage :: real
  SchoolAverage :: real
  DistrictAverage :: real
  TotalStudents :: int

record HistoricalPerformance =
  Year :: string
  Subject :: string
  ClassAverage :: real
  SchoolAverage :: real
  DistrictAverage :: real

record DashboardData =
  Students :: "Student list"
  Scores :: "StudentScore list"
  AggregateScores :: AggregateScore
  HistoricalPerformance :: "HistoricalPerformance list"

text \<open>
  The classes \<open>User\<close>, \<open>LoginRequest\<close>, \<open>UserDto\<close> and \<open>LoginResponse\<close> are declared in a
  file that is not part of the sources at hand; their fields are the ones
  \<open>AuthController.Login\<close> reads and writes.
\<close>

record User =
  Id :: string
  Username :: string
  PasswordHash :: string
  Name :: string
  Email :: string
  Role :: string

record LoginRequest =
  Username :: string
  Password :: string

record UserDto =
  Id :: string
  Username :: string
  Name :: string
  Email :: string
  Role :: string

record LoginResponse =
  User :: UserDto
  Token :: string

section \<open>The server's state\<close>

text \<open>
  What \<open>File.Exists\<close>, \<open>File.ReadAllTextAsync\<close> and \<open>JsonSerializer.Deserialize\<close> find for
  one file of the \<open>Data\<close> directory: the file is not there, it is there but reading it
  throws, its text is not JSON of the expected type, its text is the JSON value \<open>null\<close>, or it
  holds a list.
\<close>

datatype 'a json_file = Missing | Unreadable | Malformed | JsonNull | JsonList "'a list"

record DataDir =
  users_json :: "User json_file"
  schools_json :: "School json_file"
  tests_json :: "Test json_file"
  students_json :: "Student json_file"
  scores_json :: "StudentScore json_file"
  historicalPerformance_json :: "HistoricalPerformance json_file"

datatype exn = IOException | JsonException | InvalidOperationException | SecurityTokenException

text \<open>
  \<open>IMemoryCache\<close> holds values of any type under string keys; the three controllers store a
  \<open>DashboardData\<close>, a \<open>List<Test>\<close> and a \<open>List<School>\<close>. An entry carries the absolute
  instant at which it expires, in ticks of 100 nanoseconds.
\<close>

datatype cache_value = CDashboard DashboardData | CTests "Test list" | CSchools "School list"

record CacheEntry =
  Value :: cache_value
  AbsoluteExpiration :: int

text \<open>
  The state the controllers run against: the clock (in ticks), the memory cache, the
  \<open>Data\<close> directory, and the trace of the files the data service was asked for, in order.
\<close>

record server =
  clock :: int
  cache :: "string \<rightharpoonup> CacheEntry"
  files :: DataDir
  reads :: "string list"

datatype 'a ActionResult = Ok 'a | BadRequest string | Unauthorized string | StatusCode int string

fun status :: "'a ActionResult \<Rightarrow> int" where
  "status (Ok _) = 200"
| "status (BadRequest _) = 400"
| "status (Unauthorized _) = 401"
| "status (StatusCode c _) = c"

section \<open>Library operations the controllers call\<close>

definition TicksPerMillisecond :: int where
  "TicksPerMillisecond = 10000"

definition FromMinutes :: "int \<Rightarrow> int" where
  "FromMinutes m = m * 60 * 1000 * TicksPerMillisecond"

text \<open>\<open>Task.Delay(ms)\<close>: the clock moves on by the delay.\<close>

definition Task_Delay :: "int \<Rightarrow> server \<Rightarrow> server" where
  "Task_Delay ms w = w\<lparr>clock := clock w + ms * TicksPerMillisecond\<rparr>"

text \<open>A C# \<open>string\<close> parameter may be \<open>null\<close>: \<open>None\<close>.\<close>

definition IsNullOrEmpty :: "string option \<Rightarrow> bool" where
  "IsNullOrEmpty s = (case s of None \<Rightarrow> True | Some v \<Rightarrow> v = [])"

text \<open>The text an interpolated string \<open>$"{s}"\<close> puts in for \<open>s\<close>: nothing for \<open>null\<close>.\<close>

definition interp :: "string option \<Rightarrow> string" where
  "interp s = (case s of None \<Rightarrow> [] | Some v \<Rightarrow> v)"

text \<open>
  \<open>MemoryCache.TryGetValue\<close>: an entry whose absolute expiration is at or before the clock
  is not returned. (The library also drops such an entry; the model leaves it in place,
  where it is never returned again, since the clock does not go back.) The typed extension
  method \<open>TryGetValue<TItem>\<close> misses as well when the stored value is of another type.
\<close>

definition TryGetValue :: "server \<Rightarrow> string \<Rightarrow> cache_value option" where
  "TryGetValue w key =
     (case cache w key of
        None \<Rightarrow> None
      | Some e \<Rightarrow> if AbsoluteExpiration e \<le> clock w then None else Some (Value e))"

definition TryGetValue_DashboardData :: "server \<Rightarrow> string \<Rightarrow> DashboardData option" where
  "TryGetValue_DashboardData w key =
     (case TryGetValue w key of Some (CDashboard d) \<Rightarrow> Some d | _ \<Rightarrow> None)"

definition TryGetValue_Tests :: "server \<Rightarrow> string \<Rightarrow> Test list option" where
  "TryGetValue_Tests w key =
     (case TryGetValue w key of Some (CTests ts) \<Rightarrow> Some ts | _ \<Rightarrow> None)"

definition TryGetValue_Schools :: "server \<Rightarrow> string \<Rightarrow> School list option" where
  "TryGetValue_Schools w key =
     (case TryGetValue w key of Some (CSchools ss) \<Rightarrow> Some ss | _ \<Rightarrow> None)"

text \<open>
  \<open>_cache.Set(key, value, new MemoryCacheEntryOptions().SetAbsoluteExpiration(ttl))\<close>: the
  entry replaces any entry under the key and expires \<open>ttl\<close> after the instant of the call.
\<close>

definition Set_entry :: "string \<Rightarrow> cache_value \<Rightarrow> int \<Rightarrow> server \<Rightarrow> server" where
  "Set_entry key v ttl w =
     w\<lparr>cache := (cache w)(key \<mapsto> \<lparr>Value = v, AbsoluteExpiration = clock w + ttl\<rparr>)\<rparr>"

text \<open>
  \<open>Enumerable.Any\<close> and \<open>Enumerable.Average\<close> over \<open>int\<close>; the latter throws on an empty
  sequence. The sum is accumulated in a \<open>long\<close>, which a list of \<open>int\<close> cannot overflow, so
  the scores are unbounded integers here.
\<close>

definition Any :: "'a list \<Rightarrow> bool" where
  "Any xs = (xs \<noteq> [])"

definition Average :: "int list \<Rightarrow> exn + real" where
  "Average xs =
     (if xs = [] then Inl InvalidOperationException
      else Inr (real_of_int (sum_list xs) / real (length xs)))"

text \<open>
  \<open>Math.Round(double)\<close> rounds to the nearest integer and a midpoint to the even
  neighbour; \<open>Math.Round(value, digits)\<close> scales by \<open>10 ^ digits\<close>, rounds so, and scales
  back (\<open>MidpointRounding.ToEven\<close> is the mode when none is given).
\<close>

definition Round_ToEven :: "real \<Rightarrow> real" where
  "Round_ToEven x =
     (let f = \<lfloor>x\<rfloor>; d = x - of_int f
      in of_int (if d < 1 / 2 then f
                 else if 1 / 2 < d then f + 1
                 else if even f then f else f + 1))"

definition Math_Round :: "real \<Rightarrow> nat \<Rightarrow> real" where
  "Math_Round v digits = Round_ToEven (v * 10 ^ digits) / 10 ^ digits"

section \<open>DataService (api/Program.cs)\<close>

definition accessed :: "string \<Rightarrow> server \<Rightarrow> server" where
  "accessed fileName w = w\<lparr>reads := reads w @ [fileName]\<rparr>"

text \<open>
  \<open>ReadJsonFileAsync<T>(fileName)\<close>: a file that does not exist gives the empty list; reading
  and deserialising may throw; a deserialised \<open>null\<close> gives the empty list. The caller hands
  over the state of the file of its element type.
\<close>

fun ReadJsonFileAsync :: "string \<Rightarrow> 'a json_file \<Rightarrow> server \<Rightarrow> (exn + 'a list) \<times> server" where
  "ReadJsonFileAsync fileName Missing w = (Inr [], accessed fileName w)"
| "ReadJsonFileAsync fileName Unreadable w = (Inl IOException, accessed fileName w)"
| "ReadJsonFileAsync fileName Malformed w = (Inl JsonException, accessed fileName w)"
| "ReadJsonFileAsync fileName JsonNull w = (Inr [], accessed fileName w)"
| "ReadJsonFileAsync fileName (JsonList xs) w = (Inr xs, accessed fileName w)"

definition GetUsersAsync :: "server \<Rightarrow> (exn + User list) \<times> server" where
  "GetUsersAsync w = ReadJsonFileAsync ''users.json'' (users_json (files w)) w"

definition GetSchoolsAsync :: "server \<Rightarrow> (exn + School list) \<times> server" where
  "GetSchoolsAsync w = ReadJsonFileAsync ''schools.json'' (schools_json (files w)) w"

definition GetTestsAsync :: "server \<Rightarrow> (exn + Test list) \<times> server" where
  "GetTestsAsync w = ReadJsonFileAsync ''tests.json'' (tests_json (files w)) w"

definition GetStudentsAsync :: "server \<Rightarrow> (exn + Student list) \<times> server" where
  "GetStudentsAsync w = ReadJsonFileAsync ''students.json'' (students_json (files w)) w"

definition GetScoresAsync :: "server \<Rightarrow> (exn + StudentScore list) \<times> server" where
  "GetScoresAsync w = ReadJsonFileAsync ''scores.json'' (scores_json (files w)) w"

definition GetHistoricalPerformanceAsync ::
    "server \<Rightarrow> (exn + HistoricalPerformance list) \<times> server" where
  "GetHistoricalPerformanceAsync w =
     ReadJsonFileAsync ''historicalPerformance.json'' (historicalPerformance_json (files w)) w"

section \<open>DashboardController.GetDashboardData (api/Controllers/AuthController.cs)\<close>

definition dashboard_error :: string where
  "dashboard_error = ''An error occurred while retrieving dashboard data''"

text \<open>
  The action, statement by statement. An exception thrown inside the \<open>try\<close> block is an
  \<open>Inl\<close> and ends in the \<open>catch\<close>: \<open>StatusCode(500, ...)\<close>, with the cache as it was.
  After the guard the three parameters are not \<open>null\<close>, so \<open>interp\<close> gives their text.
\<close>

definition GetDashboardData ::
    "string option \<Rightarrow> string option \<Rightarrow> string option \<Rightarrow> server
       \<Rightarrow> DashboardData ActionResult \<times> server" where
  "GetDashboardData schoolId schoolYear testId w =
     (if IsNullOrEmpty schoolId \<or> IsNullOrEmpty schoolYear \<or> IsNullOrEmpty testId
      then (BadRequest ''schoolId, schoolYear, and testId are required'', w)
      else
        let cacheKey =
              ''dashboard_'' @ interp schoolId @ ''_'' @ interp schoolYear @ ''_'' @ interp testId
        in case TryGetValue_DashboardData w cacheKey of
             Some data \<Rightarrow> (Ok data, w)
           | None \<Rightarrow>
               (case GetStudentsAsync (Task_Delay 600 w) of
                  (Inl ex, w1) \<Rightarrow> (StatusCode 500 dashboard_error, w1)
                | (Inr students, w1) \<Rightarrow>
               (case GetScoresAsync w1 of
                  (Inl ex, w2) \<Rightarrow> (StatusCode 500 dashboard_error, w2)
                | (Inr scores, w2) \<Rightarrow>
               (case GetHistoricalPerformanceAsync w2 of
                  (Inl ex, w3) \<Rightarrow> (StatusCode 500 dashboard_error, w3)
                | (Inr historicalPerformance, w3) \<Rightarrow>
                    let testScores = filter (\<lambda>s. Some (StudentScore.TestId s) = testId) scores
                    in (case (if Any testScores then Average (map Score testScores) else Inr 0) of
                          Inl ex \<Rightarrow> (StatusCode 500 dashboard_error, w3)
                        | Inr classAverage \<Rightarrow>
                            let data =
                                  \<lparr>Students = students,
                                   Scores = testScores,
                                   AggregateScores =
                                     \<lparr>AggregateScore.TestId = interp testId,
                                      SchoolYear = interp schoolYear,
                                      AggregateScore.ClassAverage = Math_Round classAverage 1,
                                      AggregateScore.SchoolAverage = 81.5,
                                      AggregateScore.DistrictAverage = 79.3,
                                      TotalStudents = int (length students)\<rparr>,
                                   HistoricalPerformance = historicalPerformance\<rparr>
                            in (Ok data, Set_entry cacheKey (CDashboard data) (FromMinutes 10) w3))))))"

section \<open>TestsController.GetTests and SchoolsController.GetSchools\<close>

definition GetTests :: "server \<Rightarrow> Test list ActionResult \<times> server" where
  "GetTests w =
     (case TryGetValue_Tests w ''tests'' of
        Some tests \<Rightarrow> (Ok tests, w)
      | None \<Rightarrow>
          (case GetTestsAsync (Task_Delay 300 w) of
             (Inl ex, w1) \<Rightarrow> (StatusCode 500 ''An error occurred while retrieving tests'', w1)
           | (Inr tests, w1) \<Rightarrow>
               (Ok tests, Set_entry ''tests'' (CTests tests) (FromMinutes 30) w1)))"

definition GetSchools :: "server \<Rightarrow> School list ActionResult \<times> server" where
  "GetSchools w =
     (case TryGetValue_Schools w ''schools'' of
        Some schools \<Rightarrow> (Ok schools, w)
      | None \<Rightarrow>
          (case GetSchoolsAsync (Task_Delay 300 w) of
             (Inl ex, w1) \<Rightarrow> (StatusCode 500 ''An error occurred while retrieving schools'', w1)
           | (Inr schools, w1) \<Rightarrow>
               (Ok schools, Set_entry ''schools'' (CSchools schools) (FromMinutes 30) w1)))"

section \<open>AuthController.Login\<close>

text \<open>
  \<open>TokenService.GenerateToken\<close> is not part of the sources at hand: it is the parameter
  \<open>GenerateToken\<close>, which may throw. \<open>FirstOrDefault\<close> is \<open>find\<close>: the first user of the
  list with the request's user name and password, or \<open>null\<close>.
\<close>

definition login_error :: string where
  "login_error = ''An error occurred during login''"

definition Login ::
    "(string \<Rightarrow> string \<Rightarrow> string \<Rightarrow> exn + string) \<Rightarrow> LoginRequest \<Rightarrow> server
       \<Rightarrow> LoginResponse ActionResult \<times> server" where
  "Login GenerateToken request w =
     (case GetUsersAsync (Task_Delay 800 w) of
        (Inl ex, w1) \<Rightarrow> (StatusCode 500 login_error, w1)
      | (Inr users, w1) \<Rightarrow>
          (case find (\<lambda>u. User.Username u = LoginRequest.Username request \<and>
                           PasswordHash u = Password request) users of
             None \<Rightarrow> (Unauthorized ''Invalid credentials'', w1)
           | Some user \<Rightarrow>
               (case GenerateToken (User.Id user) (User.Username user) (User.Role user) of
                  Inl ex \<Rightarrow> (StatusCode 500 login_error, w1)
                | Inr token \<Rightarrow>
                    (Ok \<lparr>User = \<lparr>UserDto.Id = User.Id user,
                                 UserDto.Username = User.Username user,
                                 UserDto.Name = User.Name user,
                                 UserDto.Email = User.Email user,
                                 UserDto.Role = User.Role user\<rparr>,
                         Token = token\<rparr>, w1))))"

section \<open>The authentication gate (api/Program.cs)\<close>

text \<open>
  \<open>Program.cs\<close> registers the JWT bearer handler with a \<open>TokenValidationParameters\<close> object
  and puts \<open>[Authorize]\<close> on the dashboard, tests and schools controllers. The handler and
  the validators are library code (\<open>Microsoft.IdentityModel.Tokens\<close>); they are modelled
  from their documented behaviour. \<open>JwtSettings\<close> is declared in a file that is not part of
  the sources at hand; its fields are the ones \<open>Program.cs\<close> reads.

  A token as the handler sees it after decoding: its issuer, audience and expiry claims
  (the expiry in ticks; \<open>None\<close> when the claim is absent) and the key its signature was made
  with. Signatures are idealised: a signature verifies under a key exactly when it was
  made with that key.
\<close>

record JwtSettings =
  Secret :: string
  Issuer :: string
  Audience :: string

record Jwt =
  iss :: string
  aud :: string
  exp :: "int option"
  signed_with :: string

record TokenValidationParameters =
  ValidateIssuer :: bool
  ValidateAudience :: bool
  ValidateLifetime :: bool
  ValidateIssuerSigningKey :: bool
  ValidIssuer :: string
  ValidAudience :: string
  IssuerSigningKey :: string
  ClockSkew :: int

text \<open>
  \<open>TokenValidationParameters.DefaultClockSkew\<close>, five minutes: the value of \<open>ClockSkew\<close> of
  an object whose initialiser does not set it.
\<close>

definition DefaultClockSkew :: int where
  "DefaultClockSkew = 300 * 1000 * TicksPerMillisecond"

text \<open>The object \<open>Program.cs\<close> builds; it sets the first seven properties only.\<close>

definition Program_TokenValidationParameters :: "JwtSettings \<Rightarrow> TokenValidationParameters" where
  "Program_TokenValidationParameters jwtSettings =
     \<lparr>ValidateIssuer = True,
      ValidateAudience = True,
      ValidateLifetime = True,
      ValidateIssuerSigningKey = True,
      ValidIssuer = Issuer jwtSettings,
      ValidAudience = Audience jwtSettings,
      IssuerSigningKey = Secret jwtSettings,
      ClockSkew = DefaultClockSkew\<rparr>"

text \<open>
  \<open>Validators.ValidateLifetime\<close>: a token without an expiry is refused, and so is one whose
  expiry is before the current instant less the clock skew.
\<close>

definition lifetime_ok :: "TokenValidationParameters \<Rightarrow> int \<Rightarrow> Jwt \<Rightarrow> bool" where
  "lifetime_ok p now jwt =
     (if ValidateLifetime p
      then (case exp jwt of None \<Rightarrow> False | Some e \<Rightarrow> \<not> e < now - ClockSkew p)
      else True)"

definition ValidateToken :: "TokenValidationParameters \<Rightarrow> int \<Rightarrow> Jwt \<Rightarrow> bool" where
  "ValidateToken p now jwt =
     (signed_with jwt = IssuerSigningKey p \<and>
      lifetime_ok p now jwt \<and>
      (ValidateIssuer p \<longrightarrow> iss jwt = ValidIssuer p) \<and>
      (ValidateAudience p \<longrightarrow> aud jwt = ValidAudience p))"

text \<open>
  \<open>[Authorize]\<close> in front of an action: without a bearer token that validates, the request
  is challenged with an empty \<open>401\<close> and the action does not run.
\<close>

definition Authorize ::
    "TokenValidationParameters \<Rightarrow> Jwt option \<Rightarrow> (server \<Rightarrow> 'a ActionResult \<times> server) \<Rightarrow> server
       \<Rightarrow> 'a ActionResult \<times> server" where
  "Authorize p bearer action w =
     (case bearer of
        None \<Rightarrow> (Unauthorized [], w)
      | Some jwt \<Rightarrow> if ValidateToken p (clock w) jwt then action w else (Unauthorized [], w))"

text \<open>The three protected routes.\<close>

definition api_dashboard ::
    "JwtSettings \<Rightarrow> Jwt option \<Rightarrow> string option \<Rightarrow> string option \<Rightarrow> string option \<Rightarrow> server
       \<Rightarrow> DashboardData ActionResult \<times> server" where
  "api_dashboard jwtSettings bearer schoolId schoolYear testId =
     Authorize (Program_TokenValidationParameters jwtSettings) bearer
       (GetDashboardData schoolId schoolYear testId)"

definition api_tests :: "JwtSettings \<Rightarrow> Jwt option \<Rightarrow> server \<Rightarrow> Test list ActionResult \<times> server" where
  "api_tests jwtSettings bearer =
     Authorize (Program_TokenValidationParameters jwtSettings) bearer GetTests"

definition api_schools ::
    "JwtSettings \<Rightarrow> Jwt option \<Rightarrow> server \<Rightarrow> School list ActionResult \<times> server" where
  "api_schools jwtSettings bearer =
     Authorize (Program_TokenValidationParameters jwtSettings) bearer GetSchools"

section \<open>Runs of the server\<close>

text \<open>
  What can happen to the server between two requests: any of the four actions runs, time
  passes, or the files of the \<open>Data\<close> directory are replaced.
\<close>

datatype event =
    DashboardReq "string option" "string option" "string option"
  | TestsReq
  | SchoolsReq
  | LoginReq LoginRequest
  | Tick nat
  | FilesReplaced DataDir

fun step :: "(string \<Rightarrow> string \<Rightarrow> string \<Rightarrow> exn + string) \<Rightarrow> event \<Rightarrow> server \<Rightarrow> server" where
  "step gen (DashboardReq schoolId schoolYear testId) w =
     snd (GetDashboardData schoolId schoolYear testId w)"
| "step gen TestsReq w = snd (GetTests w)"
| "step gen SchoolsReq w = snd (GetSchools w)"
| "step gen (LoginReq request) w = snd (Login gen request w)"
| "step gen (Tick n) w = w\<lparr>clock := clock w + int n\<rparr>"
| "step gen (FilesReplaced dir) w = w\<lparr>files := dir\<rparr>"

fun run :: "(string \<Rightarrow> string \<Rightarrow> string \<Rightarrow> exn + string) \<Rightarrow> event list \<Rightarrow> server \<Rightarrow> server" where
  "run gen [] w = w"
| "run gen (ev # evs) w = run gen evs (step gen ev w)"

fun file_event :: "event \<Rightarrow> bool" where
  "file_event (FilesReplaced dir) = True"
| "file_event _ = False"

section \<open>Notions the properties are stated with\<close>

definition valid_query :: "string option \<Rightarrow> string option \<Rightarrow> string option \<Rightarrow> bool" where
  "valid_query schoolId schoolYear testId =
     (\<not> IsNullOrEmpty schoolId \<and> \<not> IsNullOrEmpty schoolYear \<and> \<not> IsNullOrEmpty testId)"

definition cacheKey_of :: "string option \<Rightarrow> string option \<Rightarrow> string option \<Rightarrow> string" where
  "cacheKey_of schoolId schoolYear testId =
     ''dashboard_'' @ interp schoolId @ ''_'' @ interp schoolYear @ ''_'' @ interp testId"

text \<open>A file whose read does not throw, and the list the read returns.\<close>

definition readable :: "'a json_file \<Rightarrow> bool" where
  "readable f = (f \<noteq> Unreadable \<and> f \<noteq> Malformed)"

fun contents :: "'a json_file \<Rightarrow> 'a list" where
  "contents (JsonList xs) = xs"
| "contents Missing = []"
| "contents Unreadable = []"
| "contents Malformed = []"
| "contents JsonNull = []"

fun result_of :: "'a ActionResult \<Rightarrow> 'a option" where
  "result_of (Ok v) = Some v"
| "result_of (BadRequest m) = None"
| "result_of (Unauthorized m) = None"
| "result_of (StatusCode c m) = None"

text \<open>The scores of one test, and their arithmetic mean.\<close>

definition matching :: "string option \<Rightarrow> StudentScore list \<Rightarrow> StudentScore list" where
  "matching testId scores = filter (\<lambda>s. Some (StudentScore.TestId s) = testId) scores"

definition mean :: "StudentScore list \<Rightarrow> real" where
  "mean scores = real_of_int (sum_list (map Score scores)) / real (length scores)"

text \<open>The server after a dashboard request that missed the cache has read its three files.\<close>

definition after_reads :: "server \<Rightarrow> server" where
  "after_reads w =
     accessed ''historicalPerformance.json''
       (accessed ''scores.json'' (accessed ''students.json'' (Task_Delay 600 w)))"

text \<open>The dashboard a miss computes from the files, as one expression.\<close>

definition computed :: "string option \<Rightarrow> string option \<Rightarrow> DataDir \<Rightarrow> DashboardData" where
  "computed schoolYear testId dir =
     \<lparr>Students = contents (students_json dir),
      Scores = matching testId (contents (scores_json dir)),
      AggregateScores =
        \<lparr>AggregateScore.TestId = interp testId,
         SchoolYear = interp schoolYear,
         AggregateScore.ClassAverage =
           Math_Round (if matching testId (contents (scores_json dir)) = [] then 0
                       else mean (matching testId (contents (scores_json dir)))) 1,
         AggregateScore.SchoolAverage = 81.5,
         AggregateScore.DistrictAverage = 79.3,
         TotalStudents = int (length (contents (students_json dir)))\<rparr>,
      HistoricalPerformance = contents (historicalPerformance_json dir)\<rparr>"

text \<open>
  The rounding the specification asks for, in its words: to \<open>digits\<close> decimal places, a
  midpoint going away from zero.
\<close>

definition round_half_away_from_zero :: "real \<Rightarrow> nat \<Rightarrow> real" where
  "round_half_away_from_zero v digits =
     sgn v * of_int \<lfloor>\<bar>v\<bar> * 10 ^ digits + 1 / 2\<rfloor> / 10 ^ digits"

text \<open>
  \<open>r\<close> is \<open>m\<close> rounded to \<open>digits\<close> decimal places, a midpoint going to the even last
  digit: \<open>r\<close> is a multiple of \<open>10 ^ - digits\<close>, at most half a unit of the last place from
  \<open>m\<close>, and its last digit is even when it is exactly half a unit away.
\<close>

definition nearest_decimal_ties_to_even :: "nat \<Rightarrow> real \<Rightarrow> real \<Rightarrow> bool" where
  "nearest_decimal_ties_to_even digits m r =
     (let k = \<lfloor>r * 10 ^ digits\<rfloor>
      in r * 10 ^ digits = of_int k \<and> \<bar>m * 10 ^ digits - of_int k\<bar> \<le> 1 / 2 \<and>
         (\<bar>m * 10 ^ digits - of_int k\<bar> = 1 / 2 \<longrightarrow> even k))"

text \<open>The class average a response carries, if it is a \<open>200\<close>.\<close>

definition class_average :: "DashboardData ActionResult \<Rightarrow> real option" where
  "class_average r = map_option (\<lambda>d. AggregateScore.ClassAverage (AggregateScores d)) (result_of r)"

text \<open>
  The invariant of a server whose files stay \<open>dir\<close>: every dashboard in the cache carries the
  roster of \<open>dir\<close> and its length.
\<close>

definition roster_kept :: "DataDir \<Rightarrow> server \<Rightarrow> bool" where
  "roster_kept dir w =
     (files w = dir \<and>
      (\<forall>k e d. cache w k = Some e \<longrightarrow> Value e = CDashboard d \<longrightarrow>
         readable (students_json dir) \<and> Students d = contents (students_json dir) \<and>
         TotalStudents (AggregateScores d) = int (length (contents (students_json dir)))))"

text \<open>The server without the cache entry under \<open>key\<close>.\<close>

definition evict :: "string \<Rightarrow> server \<Rightarrow> server" where
  "evict key w = w\<lparr>cache := (cache w)(key := None)\<rparr>"

section \<open>Example data\<close>

definition score :: "string \<Rightarrow> string \<Rightarrow> int \<Rightarrow> StudentScore" where
  "score sid tid n =
     \<lparr>StudentScore.StudentId = sid, StudentScore.TestId = tid, Score = n, Percentile = 50,
      TestDate = ''2025-10-01''\<rparr>"

definition student :: "string \<Rightarrow> string \<Rightarrow> Student" where
  "student sid first =
     \<lparr>Student.Id = sid, FirstName = first, LastName = ''Doe'', Student.StudentId = sid,
      Grade = ''5''\<rparr>"

definition teacher :: User where
  "teacher =
     \<lparr>User.Id = ''1'', User.Username = ''teacher'', PasswordHash = ''password'',
      User.Name = ''Jane Teacher'', User.Email = ''teacher@school.edu'', User.Role = ''Teacher''\<rparr>"

definition example_files :: DataDir where
  "example_files =
     \<lparr>users_json = JsonList [teacher],
      schools_json = JsonList [\<lparr>School.Id = ''SCH1'', School.Name = ''Lincoln'', District = ''D1''\<rparr>],
      tests_json = JsonList [\<lparr>Test.Id = ''2'', Test.Name = ''Interim'', Test.Subject = ''Math'',
                              MaxScore = 100\<rparr>],
      students_json = JsonList [student ''s1'' ''Ann'', student ''s2'' ''Bob'', student ''s3'' ''Cy''],
      scores_json = JsonList [score ''s1'' ''2'' 80, score ''s2'' ''2'' 90, score ''s3'' ''1'' 50],
      historicalPerformance_json = JsonList []\<rparr>"

definition fresh_server :: "DataDir \<Rightarrow> server" where
  "fresh_server dir = \<lparr>clock = 0, cache = Map.empty, files = dir, reads = []\<rparr>"

definition example_token :: "string \<Rightarrow> string \<Rightarrow> string \<Rightarrow> exn + string" where
  "example_token uid uname urole = Inr (''token-'' @ uid)"

definition midpoint_files :: DataDir where
  "midpoint_files =
     example_files\<lparr>scores_json :=
       JsonList [score ''s1'' ''2'' 80, score ''s2'' ''2'' 81, score ''s3'' ''2'' 80,
                 score ''s4'' ''2'' 80]\<rparr>"

definition no_roster_files :: DataDir where
  "no_roster_files = example_files\<lparr>students_json := Missing\<rparr>"

definition unreadable_scores_files :: DataDir where
  "unreadable_scores_files = example_files\<lparr>scores_json := Unreadable\<rparr>"

text \<open>
  A server whose three cache entries have expired; the dashboard entry was computed from
  other files than the ones now in place.
\<close>

definition stale_server :: server where
  "stale_server =
     \<lparr>clock = 20000000000,
      cache = [''dashboard_SCH1_2025-2026_2'' \<mapsto>
                 \<lparr>Value = CDashboard (computed (Some ''2025-2026'') (Some ''2'') midpoint_files),
                  AbsoluteExpiration = 6006000000\<rparr>,
               ''tests'' \<mapsto> \<lparr>Value = CTests [], AbsoluteExpiration = 18003000000\<rparr>,
               ''schools'' \<mapsto> \<lparr>Value = CSchools [], AbsoluteExpiration = 20000000000\<rparr>],
      files = example_files,
      reads = []\<rparr>"

definition example_settings :: JwtSettings where
  "example_settings =
     \<lparr>Secret = ''a-demo-secret-of-32-characters!!'', Issuer = ''TeacherDashboardAPI'',
      Audience = ''TeacherDashboardClient''\<rparr>"

text \<open>
  Two tokens with a good signature, for a server whose clock reads \<open>20000000000\<close>: one
  expired a minute ago, one expired ten minutes ago.
\<close>

definition just_expired_jwt :: Jwt where
  "just_expired_jwt =
     \<lparr>iss = ''TeacherDashboardAPI'', aud = ''TeacherDashboardClient'',
      exp = Some (20000000000 - 600000000), signed_with = ''a-demo-secret-of-32-characters!!''\<rparr>"

definition long_expired_jwt :: Jwt where
  "long_expired_jwt =
     \<lparr>iss = ''TeacherDashboardAPI'', aud = ''TeacherDashboardClient'',
      exp = Some (20000000000 - 6000000000), signed_with = ''a-demo-secret-of-32-characters!!''\<rparr>"

text \<open>
  The response's scores, if it is a \<open>200\<close>.
\<close>

definition scores_of :: "DashboardData ActionResult \<Rightarrow> StudentScore list option" where
  "scores_of r = map_option Scores (result_of r)"

text \<open>
  The number of students a response reports, if it is a \<open>200\<close>.
\<close>

definition total_students_of :: "DashboardData ActionResult \<Rightarrow> int option" where
  "total_students_of r = map_option (\<lambda>d. TotalStudents (AggregateScores d)) (result_of r)"

section \<open>Basic facts\<close>

lemma accessed_fields [simp]:
  "files (accessed n w) = files w"
  "cache (accessed n w) = cache w"
  "clock (accessed n w) = clock w"
  "reads (accessed n w) = reads w @ [n]"
  by (simp_all add: accessed_def)

lemma Task_Delay_fields [simp]:
  "files (Task_Delay ms w) = files w"
  "cache (Task_Delay ms w) = cache w"
  "reads (Task_Delay ms w) = reads w"
  "clock (Task_Delay ms w) = clock w + ms * TicksPerMillisecond"
  by (simp_all add: Task_Delay_def)

lemma Set_entry_fields [simp]:
  "files (Set_entry k v ttl w) = files w"
  "reads (Set_entry k v ttl w) = reads w"
  "clock (Set_entry k v ttl w) = clock w"
  "cache (Set_entry k v ttl w) = (cache w)(k \<mapsto> \<lparr>Value = v, AbsoluteExpiration = clock w + ttl\<rparr>)"
  by (simp_all add: Set_entry_def)

lemma after_reads_fields [simp]:
  "files (after_reads w) = files w"
  "cache (after_reads w) = cache w"
  "clock (after_reads w) = clock w + 600 * TicksPerMillisecond"
  "reads (after_reads w) = reads w @ [''students.json'', ''scores.json'', ''historicalPerformance.json'']"
  by (simp_all add: after_reads_def)

lemma ReadJsonFileAsync_readable:
  "readable f \<Longrightarrow> ReadJsonFileAsync n f w = (Inr (contents f), accessed n w)"
  by (cases f) (simp_all add: readable_def)

lemma ReadJsonFileAsync_unreadable:
  "\<not> readable f \<Longrightarrow> \<exists>ex. ReadJsonFileAsync n f w = (Inl ex, accessed n w)"
  by (cases f) (simp_all add: readable_def)

lemma Round_ToEven_0 [simp]: "Round_ToEven 0 = 0"
  by (simp add: Round_ToEven_def)

lemma Math_Round_0 [simp]: "Math_Round 0 digits = 0"
  by (simp add: Math_Round_def)

lemma GetDashboardData_invalid:
  "\<not> valid_query schoolId schoolYear testId \<Longrightarrow>
   GetDashboardData schoolId schoolYear testId w =
     (BadRequest ''schoolId, schoolYear, and testId are required'', w)"
  by (auto simp add: GetDashboardData_def valid_query_def)

lemma GetDashboardData_hit:
  "valid_query schoolId schoolYear testId \<Longrightarrow>
   TryGetValue_DashboardData w (cacheKey_of schoolId schoolYear testId) = Some d \<Longrightarrow>
   GetDashboardData schoolId schoolYear testId w = (Ok d, w)"
  by (simp add: GetDashboardData_def valid_query_def cacheKey_of_def)

lemma GetDashboardData_miss:
  assumes "valid_query schoolId schoolYear testId"
    and "TryGetValue_DashboardData w (cacheKey_of schoolId schoolYear testId) = None"
    and "readable (students_json (files w))"
    and "readable (scores_json (files w))"
    and "readable (historicalPerformance_json (files w))"
  shows "GetDashboardData schoolId schoolYear testId w =
           (Ok (computed schoolYear testId (files w)),
            Set_entry (cacheKey_of schoolId schoolYear testId)
              (CDashboard (computed schoolYear testId (files w))) (FromMinutes 10) (after_reads w))"
  using assms
  by (simp add: GetDashboardData_def valid_query_def cacheKey_of_def GetStudentsAsync_def
      GetScoresAsync_def GetHistoricalPerformanceAsync_def ReadJsonFileAsync_readable
      computed_def after_reads_def Any_def Average_def Let_def matching_def mean_def)

lemma GetDashboardData_miss_throws:
  assumes "valid_query schoolId schoolYear testId"
    and "TryGetValue_DashboardData w (cacheKey_of schoolId schoolYear testId) = None"
    and "\<not> (readable (students_json (files w)) \<and> readable (scores_json (files w)) \<and>
            readable (historicalPerformance_json (files w)))"
  shows "fst (GetDashboardData schoolId schoolYear testId w) = StatusCode 500 dashboard_error \<and>
         cache (snd (GetDashboardData schoolId schoolYear testId w)) = cache w \<and>
         files (snd (GetDashboardData schoolId schoolYear testId w)) = files w"
proof (cases "readable (students_json (files w))")
  case False
  then obtain ex where "ReadJsonFileAsync ''students.json'' (students_json (files w)) (Task_Delay 600 w)
      = (Inl ex, accessed ''students.json'' (Task_Delay 600 w))"
    using ReadJsonFileAsync_unreadable by blast
  with assms(1,2) show ?thesis
    by (simp add: GetDashboardData_def valid_query_def cacheKey_of_def GetStudentsAsync_def)
next
  case st: True
  show ?thesis
  proof (cases "readable (scores_json (files w))")
    case False
    then obtain ex where "ReadJsonFileAsync ''scores.json'' (scores_json (files w))
        (accessed ''students.json'' (Task_Delay 600 w))
      = (Inl ex, accessed ''scores.json'' (accessed ''students.json'' (Task_Delay 600 w)))"
      using ReadJsonFileAsync_unreadable by blast
    with assms(1,2) st show ?thesis
      by (simp add: GetDashboardData_def valid_query_def cacheKey_of_def GetStudentsAsync_def
          GetScoresAsync_def ReadJsonFileAsync_readable)
  next
    case sc: True
    with st assms(3) have "\<not> readable (historicalPerformance_json (files w))" by simp
    then obtain ex where "ReadJsonFileAsync ''historicalPerformance.json''
        (historicalPerformance_json (files w))
        (accessed ''scores.json'' (accessed ''students.json'' (Task_Delay 600 w)))
      = (Inl ex, accessed ''historicalPerformance.json''
           (accessed ''scores.json'' (accessed ''students.json'' (Task_Delay 600 w))))"
      using ReadJsonFileAsync_unreadable by blast
    with assms(1,2) st sc show ?thesis
      by (simp add: GetDashboardData_def valid_query_def cacheKey_of_def GetStudentsAsync_def
          GetScoresAsync_def GetHistoricalPerformanceAsync_def ReadJsonFileAsync_readable)
  qed
qed

section \<open>The class average of a test nobody sat\<close>

text \<open>
  Claim C1. When no score of the list has the queried \<open>testId\<close>, the aggregation that
  \<open>GetDashboardData\<close> performs (on a cache miss, with the three files read without an
  exception) ends in a \<open>200\<close> response whose class average is \<open>0\<close>: \<open>Average\<close>, which throws
  on an empty sequence, is not reached, nothing is divided, and no score is returned.
\<close>

theorem no_match_class_average_zero:
  assumes "valid_query schoolId schoolYear testId"
    and "TryGetValue_DashboardData w (cacheKey_of schoolId schoolYear testId) = None"
    and "readable (students_json (files w))"
    and "scores_json (files w) = JsonList scores"
    and "readable (historicalPerformance_json (files w))"
    and "\<forall>s \<in> set scores. Some (StudentScore.TestId s) \<noteq> testId"
  shows "\<exists>d. fst (GetDashboardData schoolId schoolYear testId w) = Ok d \<and>
             AggregateScore.ClassAverage (AggregateScores d) = 0 \<and> Scores d = []"
proof -
  from assms(6) have "matching testId scores = []"
    by (simp add: matching_def)
  moreover from assms(4) have "readable (scores_json (files w))"
    by (simp add: readable_def)
  ultimately show ?thesis
    using GetDashboardData_miss [OF assms(1,2,3) _ assms(5)] assms(4)
    by (simp add: computed_def)
qed

theorem no_match_class_average_zero_witness:
  "valid_query (Some ''SCH1'') (Some ''2025-2026'') (Some ''T9'') \<and>
   TryGetValue_DashboardData (fresh_server example_files)
     (cacheKey_of (Some ''SCH1'') (Some ''2025-2026'') (Some ''T9'')) = None \<and>
   matching (Some ''T9'') [score ''s1'' ''2'' 80, score ''s2'' ''2'' 90, score ''s3'' ''1'' 50] = [] \<and>
   (\<exists>d. fst (GetDashboardData (Some ''SCH1'') (Some ''2025-2026'') (Some ''T9'')
              (fresh_server example_files)) = Ok d \<and>
        AggregateScore.ClassAverage (AggregateScores d) = 0 \<and> Scores d = [])"
proof -
  have h1: "valid_query (Some ''SCH1'') (Some ''2025-2026'') (Some ''T9'')"
    by (simp add: valid_query_def IsNullOrEmpty_def)
  have h2: "TryGetValue_DashboardData (fresh_server example_files)
      (cacheKey_of (Some ''SCH1'') (Some ''2025-2026'') (Some ''T9'')) = None"
    by (simp add: TryGetValue_DashboardData_def TryGetValue_def fresh_server_def)
  have h3: "readable (students_json (files (fresh_server example_files)))"
    by (simp add: readable_def fresh_server_def example_files_def)
  have h4: "scores_json (files (fresh_server example_files)) =
      JsonList [score ''s1'' ''2'' 80, score ''s2'' ''2'' 90, score ''s3'' ''1'' 50]"
    by (simp add: fresh_server_def example_files_def)
  have h5: "readable (historicalPerformance_json (files (fresh_server example_files)))"
    by (simp add: readable_def fresh_server_def example_files_def)
  have h6: "\<forall>s \<in> set [score ''s1'' ''2'' 80, score ''s2'' ''2'' 90, score ''s3'' ''1'' 50].
      Some (StudentScore.TestId s) \<noteq> Some ''T9''"
    by (simp add: score_def)
  show ?thesis
    using no_match_class_average_zero [OF h1 h2 h3 h4 h5 h6] h1 h2
    by (simp add: matching_def score_def)
qed

section \<open>Missing parameters\<close>

text \<open>
  Claim C5. \<open>GetDashboardData\<close> answers \<open>400\<close> exactly when one of \<open>schoolId\<close>, \<open>schoolYear\<close>,
  \<open>testId\<close> is \<open>null\<close> or empty; and then the server is left as it was: no file was read,
  nothing was aggregated and the cache has no new entry.
\<close>

theorem invalid_query_is_400:
  "(status (fst (GetDashboardData schoolId schoolYear testId w)) = 400) =
     (IsNullOrEmpty schoolId \<or> IsNullOrEmpty schoolYear \<or> IsNullOrEmpty testId) \<and>
   (IsNullOrEmpty schoolId \<or> IsNullOrEmpty schoolYear \<or> IsNullOrEmpty testId \<longrightarrow>
      GetDashboardData schoolId schoolYear testId w =
        (BadRequest ''schoolId, schoolYear, and testId are required'', w))"
proof (cases "valid_query schoolId schoolYear testId")
  case False
  then show ?thesis
    using GetDashboardData_invalid [OF False, of w] by (simp add: valid_query_def)
next
  case v: True
  show ?thesis
  proof (cases "TryGetValue_DashboardData w (cacheKey_of schoolId schoolYear testId)")
    case (Some d)
    with v show ?thesis
      using GetDashboardData_hit [OF v Some] by (simp add: valid_query_def)
  next
    case None
    show ?thesis
    proof (cases "readable (students_json (files w)) \<and> readable (scores_json (files w)) \<and>
            readable (historicalPerformance_json (files w))")
      case True
      then show ?thesis
        using GetDashboardData_miss [OF v None] v by (simp add: valid_query_def)
    next
      case False
      then show ?thesis
        using GetDashboardData_miss_throws [OF v None False] v by (simp add: valid_query_def)
    qed
  qed
qed

theorem invalid_query_is_400_witness:
  "IsNullOrEmpty (Some '''') \<and>
   status (fst (GetDashboardData (Some ''SCH1'') (Some '''') None (fresh_server example_files))) = 400 \<and>
   GetDashboardData (Some ''SCH1'') (Some '''') None (fresh_server example_files) =
     (BadRequest ''schoolId, schoolYear, and testId are required'', fresh_server example_files)"
proof -
  have h: "IsNullOrEmpty (Some '''')"
    by (simp add: IsNullOrEmpty_def)
  show ?thesis
    using invalid_query_is_400 [of "Some ''SCH1''" "Some ''''" None "fresh_server example_files"] h
    by simp
qed

section \<open>Rounding to a number of decimal places\<close>

lemma Round_ToEven_is_int: "\<exists>k. Round_ToEven x = of_int k"
  by (simp add: Round_ToEven_def Let_def)

lemma Round_ToEven_char:
  "(Round_ToEven x = of_int k) =
     (\<bar>x - of_int k\<bar> \<le> 1 / 2 \<and> (\<bar>x - of_int k\<bar> = 1 / 2 \<longrightarrow> even k))"
proof -
  define f where "f = \<lfloor>x\<rfloor>"
  have lo: "of_int f \<le> x" and hi: "x < of_int f + 1"
    by (simp_all add: f_def)
  consider (less) "x - of_int f < 1 / 2" | (more) "1 / 2 < x - of_int f" | (tie) "x - of_int f = 1 / 2"
    by linarith
  then show ?thesis
  proof cases
    case less
    then have r: "Round_ToEven x = of_int f"
      by (simp add: Round_ToEven_def f_def)
    show ?thesis
    proof (cases "k = f")
      case True
      with less lo r show ?thesis by simp
    next
      case False
      then have "k \<le> f - 1 \<or> f + 1 \<le> k" by linarith
      then have "(of_int k :: real) \<le> of_int f - 1 \<or> (of_int f :: real) + 1 \<le> of_int k"
        by (metis of_int_1 of_int_add of_int_diff of_int_le_iff)
      with less lo False r show ?thesis by auto
    qed
  next
    case more
    then have r: "Round_ToEven x = of_int (f + 1)"
      by (simp add: Round_ToEven_def f_def)
    show ?thesis
    proof (cases "k = f + 1")
      case True
      with more hi r show ?thesis by simp
    next
      case False
      then have "k \<le> f \<or> f + 2 \<le> k" by linarith
      then have "(of_int k :: real) \<le> of_int f \<or> (of_int f :: real) + 2 \<le> of_int k"
        by (metis of_int_numeral of_int_add of_int_le_iff)
      with more hi False r show ?thesis by auto
    qed
  next
    case tie
    then have r: "Round_ToEven x = of_int (if even f then f else f + 1)"
      by (simp add: Round_ToEven_def f_def)
    have xk: "x - of_int k = of_int (f - k) + 1 / 2"
      using tie by simp
    show ?thesis
    proof (cases "k = f")
      case True
      with tie r show ?thesis by auto
    next
      case nf: False
      show ?thesis
      proof (cases "k = f + 1")
        case True
        with tie r show ?thesis by auto
      next
        case False
        with nf have "k \<le> f - 1 \<or> f + 2 \<le> k" by linarith
        then have "(of_int k :: real) \<le> of_int f - 1 \<or> (of_int f :: real) + 2 \<le> of_int k"
          by (metis of_int_1 of_int_numeral of_int_add of_int_diff of_int_le_iff)
        with tie nf False r show ?thesis by auto
      qed
    qed
  qed
qed

lemma Math_Round_char:
  "(Math_Round v digits = r) = nearest_decimal_ties_to_even digits v r"
proof -
  obtain k0 where k0: "Round_ToEven (v * 10 ^ digits) = of_int k0"
    using Round_ToEven_is_int by blast
  have pos: "(10::real) ^ digits \<noteq> 0" by simp
  show ?thesis
  proof
    assume "Math_Round v digits = r"
    then have "r * 10 ^ digits = of_int k0"
      using k0 pos by (auto simp add: Math_Round_def)
    moreover have "\<bar>v * 10 ^ digits - of_int k0\<bar> \<le> 1 / 2 \<and>
        (\<bar>v * 10 ^ digits - of_int k0\<bar> = 1 / 2 \<longrightarrow> even k0)"
      using k0 Round_ToEven_char by blast
    ultimately show "nearest_decimal_ties_to_even digits v r"
      by (simp add: nearest_decimal_ties_to_even_def)
  next
    assume a: "nearest_decimal_ties_to_even digits v r"
    define k where "k = \<lfloor>r * 10 ^ digits\<rfloor>"
    from a have rk: "r * 10 ^ digits = of_int k"
      and "\<bar>v * 10 ^ digits - of_int k\<bar> \<le> 1 / 2 \<and>
        (\<bar>v * 10 ^ digits - of_int k\<bar> = 1 / 2 \<longrightarrow> even k)"
      unfolding nearest_decimal_ties_to_even_def k_def Let_def by blast+
    then have "Round_ToEven (v * 10 ^ digits) = of_int k"
      using Round_ToEven_char by blast
    then have "Math_Round v digits = of_int k / 10 ^ digits"
      by (simp add: Math_Round_def)
    also have "\<dots> = r"
      using rk pos by (metis nonzero_mult_div_cancel_right)
    finally show "Math_Round v digits = r" .
  qed
qed

text \<open>Away from an exact midpoint the two rounding modes agree.\<close>

lemma Math_Round_half_away:
  assumes "\<bar>v * 10 ^ digits - of_int \<lfloor>v * 10 ^ digits\<rfloor>\<bar> \<noteq> 1 / 2"
  shows "Math_Round v digits = round_half_away_from_zero v digits"
proof -
  define x where "x = v * 10 ^ digits"
  define k where "k = (if 0 \<le> x then \<lfloor>x + 1 / 2\<rfloor> else - \<lfloor>- x + 1 / 2\<rfloor>)"
  have ax: "\<bar>v\<bar> * 10 ^ digits = \<bar>x\<bar>"
    by (simp add: x_def abs_mult)
  have sg: "sgn v = sgn x"
    by (simp add: x_def sgn_mult)
  have "sgn x * of_int \<lfloor>\<bar>x\<bar> + 1 / 2\<rfloor> = of_int k"
  proof (cases "0 \<le> x")
    case True
    then show ?thesis
      by (cases "x = 0") (simp_all add: k_def sgn_if)
  next
    case False
    then show ?thesis by (simp add: k_def sgn_if)
  qed
  then have rh: "round_half_away_from_zero v digits = of_int k / 10 ^ digits"
    by (simp add: round_half_away_from_zero_def ax sg)
  have nt: "\<bar>x - of_int \<lfloor>x\<rfloor>\<bar> \<noteq> 1 / 2"
    using assms by (simp add: x_def)
  have fl: "of_int \<lfloor>x\<rfloor> \<le> x" "x < of_int \<lfloor>x\<rfloor> + 1"
    by simp_all
  have near: "\<bar>x - of_int k\<bar> \<le> 1 / 2"
  proof (cases "0 \<le> x")
    case True
    have "of_int \<lfloor>x + 1 / 2\<rfloor> \<le> x + 1 / 2" "x + 1 / 2 < of_int \<lfloor>x + 1 / 2\<rfloor> + 1"
      by linarith+
    moreover have "k = \<lfloor>x + 1 / 2\<rfloor>"
      using True by (simp add: k_def)
    ultimately show ?thesis by linarith
  next
    case False
    define j where "j = \<lfloor>- x + 1 / 2\<rfloor>"
    have "of_int j \<le> - x + 1 / 2" "- x + 1 / 2 < of_int j + 1"
      unfolding j_def by linarith+
    moreover have "of_int k = - (of_int j :: real)"
      using False by (simp add: k_def j_def)
    ultimately show ?thesis by linarith
  qed
  have "\<bar>x - of_int k\<bar> \<noteq> 1 / 2"
  proof
    assume e: "\<bar>x - of_int k\<bar> = 1 / 2"
    then have "x = of_int k + 1 / 2 \<or> x = of_int k - 1 / 2" by linarith
    then have "x = of_int k + 1 / 2 \<or> x = of_int (k - 1) + 1 / 2" by auto
    then obtain j where j: "x = of_int j + 1 / 2" by blast
    then have "\<lfloor>x\<rfloor> = j" by (simp add: floor_unique)
    with j nt show False by simp
  qed
  with near have "Round_ToEven x = of_int k"
    using Round_ToEven_char by blast
  then show ?thesis
    by (simp add: rh Math_Round_def x_def)
qed

lemma fresh_server_miss:
  "TryGetValue_DashboardData (fresh_server dir) key = None"
  by (simp add: TryGetValue_DashboardData_def TryGetValue_def fresh_server_def)

lemma files_fresh_server [simp]: "files (fresh_server dir) = dir"
  by (simp add: fresh_server_def)

lemma valid_query_Some:
  "valid_query (Some a) (Some b) (Some c) = (a \<noteq> [] \<and> b \<noteq> [] \<and> c \<noteq> [])"
  by (simp add: valid_query_def IsNullOrEmpty_def)

section \<open>The class average of a test with scores\<close>

text \<open>
  Claim C2, as the code has it. When some score has the queried \<open>testId\<close>, the class average
  of the response is the arithmetic mean of the matching scores rounded to one decimal
  place, to the nearest value, an exact midpoint going to the even last digit
  (\<open>Math.Round\<close> without a mode is \<open>MidpointRounding.ToEven\<close>); it is the only such value.
  Whenever the mean is not an exact midpoint between two one-decimal values this is also
  the value rounded half away from zero.
\<close>

theorem class_average_rounds_to_even:
  assumes "valid_query schoolId schoolYear testId"
    and "TryGetValue_DashboardData w (cacheKey_of schoolId schoolYear testId) = None"
    and "readable (students_json (files w))"
    and "scores_json (files w) = JsonList scores"
    and "readable (historicalPerformance_json (files w))"
    and "matching testId scores \<noteq> []"
  shows "\<exists>d. fst (GetDashboardData schoolId schoolYear testId w) = Ok d \<and>
           (\<forall>r. (AggregateScore.ClassAverage (AggregateScores d) = r) =
                nearest_decimal_ties_to_even 1 (mean (matching testId scores)) r) \<and>
           (\<bar>mean (matching testId scores) * 10 - of_int \<lfloor>mean (matching testId scores) * 10\<rfloor>\<bar> \<noteq> 1 / 2
              \<longrightarrow> AggregateScore.ClassAverage (AggregateScores d) =
                   round_half_away_from_zero (mean (matching testId scores)) 1)"
proof -
  from assms(4) have rd: "readable (scores_json (files w))"
    by (simp add: readable_def)
  have "fst (GetDashboardData schoolId schoolYear testId w) =
      Ok (computed schoolYear testId (files w))"
    using GetDashboardData_miss [OF assms(1,2,3) rd assms(5)] by simp
  moreover have "AggregateScore.ClassAverage (AggregateScores (computed schoolYear testId (files w)))
      = Math_Round (mean (matching testId scores)) 1"
    using assms(4,6) by (simp add: computed_def)
  ultimately show ?thesis
    using Math_Round_char [of "mean (matching testId scores)" 1]
      Math_Round_half_away [of "mean (matching testId scores)" 1]
    by simp
qed

theorem class_average_rounds_to_even_witness:
  "valid_query (Some ''SCH1'') (Some ''2025-2026'') (Some ''2'') \<and>
   matching (Some ''2'') [score ''s1'' ''2'' 80, score ''s2'' ''2'' 90, score ''s3'' ''1'' 50] \<noteq> [] \<and>
   mean (matching (Some ''2'') [score ''s1'' ''2'' 80, score ''s2'' ''2'' 90, score ''s3'' ''1'' 50]) = 85 \<and>
   class_average (fst (GetDashboardData (Some ''SCH1'') (Some ''2025-2026'') (Some ''2'')
     (fresh_server example_files))) = Some 85 \<and>
   round_half_away_from_zero 85 1 = 85"
proof -
  let ?scores = "[score ''s1'' ''2'' 80, score ''s2'' ''2'' 90, score ''s3'' ''1'' 50]"
  have h1: "valid_query (Some ''SCH1'') (Some ''2025-2026'') (Some ''2'')"
    by (simp add: valid_query_Some)
  have h3: "readable (students_json (files (fresh_server example_files)))"
    by (simp add: readable_def example_files_def)
  have h4: "scores_json (files (fresh_server example_files)) = JsonList ?scores"
    by (simp add: example_files_def)
  have h5: "readable (historicalPerformance_json (files (fresh_server example_files)))"
    by (simp add: readable_def example_files_def)
  have m: "matching (Some ''2'') ?scores = [score ''s1'' ''2'' 80, score ''s2'' ''2'' 90]"
    by (simp add: matching_def score_def)
  have h6: "matching (Some ''2'') ?scores \<noteq> []"
    by (simp add: m)
  have mn: "mean (matching (Some ''2'') ?scores) = 85"
    unfolding m by (simp add: mean_def score_def)
  have rh: "round_half_away_from_zero 85 1 = 85"
    by (simp add: round_half_away_from_zero_def)
  have nt: "\<bar>(85::real) * 10 - of_int \<lfloor>(85::real) * 10\<rfloor>\<bar> \<noteq> 1 / 2"
    by simp
  show ?thesis
    using class_average_rounds_to_even [OF h1 fresh_server_miss h3 h4 h5 h6] h1 h6 mn rh nt
    by (auto simp add: class_average_def)
qed

theorem class_average_half_away_counterexample:
  "class_average (fst (GetDashboardData (Some ''SCH1'') (Some ''2025-2026'') (Some ''2'')
     (fresh_server midpoint_files))) = Some 80.2 \<and>
   mean (matching (Some ''2'') (contents (scores_json midpoint_files))) = 80.25 \<and>
   round_half_away_from_zero 80.25 1 = 80.3"
proof -
  have h1: "valid_query (Some ''SCH1'') (Some ''2025-2026'') (Some ''2'')"
    by (simp add: valid_query_Some)
  have h3: "readable (students_json (files (fresh_server midpoint_files)))"
    by (simp add: readable_def example_files_def midpoint_files_def)
  have h4: "readable (scores_json (files (fresh_server midpoint_files)))"
    by (simp add: readable_def midpoint_files_def)
  have h5: "readable (historicalPerformance_json (files (fresh_server midpoint_files)))"
    by (simp add: readable_def example_files_def midpoint_files_def)
  have m: "matching (Some ''2'') (contents (scores_json midpoint_files)) =
      [score ''s1'' ''2'' 80, score ''s2'' ''2'' 81, score ''s3'' ''2'' 80, score ''s4'' ''2'' 80]"
    by (simp add: matching_def score_def midpoint_files_def)
  have mn: "mean (matching (Some ''2'') (contents (scores_json midpoint_files))) = 80.25"
    unfolding m by (simp add: mean_def score_def)
  have ne: "matching (Some ''2'') (contents (scores_json midpoint_files)) \<noteq> []"
    unfolding m by simp
  have "AggregateScore.ClassAverage (AggregateScores
      (computed (Some ''2025-2026'') (Some ''2'') midpoint_files)) = 80.2"
    unfolding computed_def using ne by (simp add: mn Math_Round_def Round_ToEven_def)
  then have "class_average (fst (GetDashboardData (Some ''SCH1'') (Some ''2025-2026'') (Some ''2'')
     (fresh_server midpoint_files))) = Some 80.2"
    using GetDashboardData_miss [OF h1 fresh_server_miss h3 h4 h5]
    by (simp add: class_average_def)
  moreover have "round_half_away_from_zero 80.25 1 = 80.3"
    by (simp add: round_half_away_from_zero_def)
  ultimately show ?thesis using mn by simp
qed

section \<open>What one event does to the server\<close>

lemma ReadJsonFileAsync_snd [simp]: "snd (ReadJsonFileAsync n f w) = accessed n w"
  by (cases f) simp_all

lemma TicksPerMillisecond_pos [simp]: "0 < TicksPerMillisecond"
  by (simp add: TicksPerMillisecond_def)

lemma FromMinutes_pos: "0 < m \<Longrightarrow> 0 < FromMinutes m"
  by (simp add: FromMinutes_def)

lemma GetDashboardData_throws_clock:
  assumes "valid_query schoolId schoolYear testId"
    and "TryGetValue_DashboardData w (cacheKey_of schoolId schoolYear testId) = None"
  shows "clock (snd (GetDashboardData schoolId schoolYear testId w)) =
           clock w + 600 * TicksPerMillisecond"
  using assms
  by (cases "students_json (files w)"; cases "scores_json (files w)";
      cases "historicalPerformance_json (files w)")
     (simp_all add: GetDashboardData_def valid_query_def cacheKey_of_def GetStudentsAsync_def
        GetScoresAsync_def GetHistoricalPerformanceAsync_def Let_def split: sum.splits)

text \<open>The four ways a dashboard request can go.\<close>

lemma GetDashboardData_cases [case_names invalid hit miss throws]:
  obtains
    "\<not> valid_query schoolId schoolYear testId"
    "GetDashboardData schoolId schoolYear testId w =
       (BadRequest ''schoolId, schoolYear, and testId are required'', w)"
  | d where "valid_query schoolId schoolYear testId"
    "TryGetValue_DashboardData w (cacheKey_of schoolId schoolYear testId) = Some d"
    "GetDashboardData schoolId schoolYear testId w = (Ok d, w)"
  | "valid_query schoolId schoolYear testId"
    "TryGetValue_DashboardData w (cacheKey_of schoolId schoolYear testId) = None"
    "readable (students_json (files w))" "readable (scores_json (files w))"
    "readable (historicalPerformance_json (files w))"
    "GetDashboardData schoolId schoolYear testId w =
       (Ok (computed schoolYear testId (files w)),
        Set_entry (cacheKey_of schoolId schoolYear testId)
          (CDashboard (computed schoolYear testId (files w))) (FromMinutes 10) (after_reads w))"
  | "valid_query schoolId schoolYear testId"
    "TryGetValue_DashboardData w (cacheKey_of schoolId schoolYear testId) = None"
    "fst (GetDashboardData schoolId schoolYear testId w) = StatusCode 500 dashboard_error"
    "cache (snd (GetDashboardData schoolId schoolYear testId w)) = cache w"
    "files (snd (GetDashboardData schoolId schoolYear testId w)) = files w"
    "clock (snd (GetDashboardData schoolId schoolYear testId w)) =
       clock w + 600 * TicksPerMillisecond"
proof (cases "valid_query schoolId schoolYear testId")
  case False
  then show ?thesis using that(1) GetDashboardData_invalid by blast
next
  case v: True
  show ?thesis
  proof (cases "TryGetValue_DashboardData w (cacheKey_of schoolId schoolYear testId)")
    case (Some d)
    then show ?thesis using that(2) v GetDashboardData_hit by blast
  next
    case None
    show ?thesis
    proof (cases "readable (students_json (files w)) \<and> readable (scores_json (files w)) \<and>
            readable (historicalPerformance_json (files w))")
      case True
      then show ?thesis using that(3) v None GetDashboardData_miss by blast
    next
      case False
      then show ?thesis
        using that(4) v None GetDashboardData_miss_throws [OF v None False]
          GetDashboardData_throws_clock [OF v None] by blast
    qed
  qed
qed

lemma TryGetValue_DashboardData_Some:
  "TryGetValue_DashboardData w k = Some d \<longleftrightarrow>
     (\<exists>e. cache w k = Some e \<and> Value e = CDashboard d \<and> clock w < AbsoluteExpiration e)"
  by (auto simp add: TryGetValue_DashboardData_def TryGetValue_def
      split: option.splits cache_value.splits if_splits)

lemma GetTests_hit:
  "TryGetValue_Tests w ''tests'' = Some ts \<Longrightarrow> GetTests w = (Ok ts, w)"
  by (simp add: GetTests_def)

lemma GetTests_miss:
  "TryGetValue_Tests w ''tests'' = None \<Longrightarrow>
   GetTests w =
     (if readable (tests_json (files w))
      then (Ok (contents (tests_json (files w))),
            Set_entry ''tests'' (CTests (contents (tests_json (files w)))) (FromMinutes 30)
              (accessed ''tests.json'' (Task_Delay 300 w)))
      else (StatusCode 500 ''An error occurred while retrieving tests'',
            accessed ''tests.json'' (Task_Delay 300 w)))"
  by (cases "tests_json (files w)") (simp_all add: GetTests_def GetTestsAsync_def readable_def)

lemma GetSchools_hit:
  "TryGetValue_Schools w ''schools'' = Some ss \<Longrightarrow> GetSchools w = (Ok ss, w)"
  by (simp add: GetSchools_def)

lemma GetSchools_miss:
  "TryGetValue_Schools w ''schools'' = None \<Longrightarrow>
   GetSchools w =
     (if readable (schools_json (files w))
      then (Ok (contents (schools_json (files w))),
            Set_entry ''schools'' (CSchools (contents (schools_json (files w)))) (FromMinutes 30)
              (accessed ''schools.json'' (Task_Delay 300 w)))
      else (StatusCode 500 ''An error occurred while retrieving schools'',
            accessed ''schools.json'' (Task_Delay 300 w)))"
  by (cases "schools_json (files w)") (simp_all add: GetSchools_def GetSchoolsAsync_def readable_def)

lemma Login_snd [simp]:
  "snd (Login gen request w) = accessed ''users.json'' (Task_Delay 800 w)"
  by (cases "users_json (files w)")
     (simp_all add: Login_def GetUsersAsync_def split: option.splits sum.splits)

lemma step_clock_mono: "clock w \<le> clock (step gen ev w)"
proof (cases ev)
  case (DashboardReq s y t)
  show ?thesis
    unfolding DashboardReq step.simps
    by (cases s y t w rule: GetDashboardData_cases) (simp_all add: less_imp_le)
next
  case TestsReq
  show ?thesis
    unfolding TestsReq step.simps
    by (cases "TryGetValue_Tests w ''tests''") (simp_all add: GetTests_miss GetTests_hit less_imp_le)
next
  case SchoolsReq
  show ?thesis
    unfolding SchoolsReq step.simps
    by (cases "TryGetValue_Schools w ''schools''")
       (simp_all add: GetSchools_miss GetSchools_hit less_imp_le)
qed (simp_all add: less_imp_le)

lemma run_clock_mono: "clock w \<le> clock (run gen evs w)"
proof (induction evs arbitrary: w)
  case Nil
  show ?case by simp
next
  case (Cons ev evs)
  have "clock w \<le> clock (step gen ev w)" by (rule step_clock_mono)
  also have "\<dots> \<le> clock (run gen evs (step gen ev w))" by (rule Cons.IH)
  finally show ?case by simp
qed

text \<open>A dashboard key is neither of the two fixed keys.\<close>

lemma cacheKey_of_not_fixed:
  "cacheKey_of s y t \<noteq> ''tests''" "cacheKey_of s y t \<noteq> ''schools''"
  by (simp_all add: cacheKey_of_def)

text \<open>
  An entry that holds a dashboard and is still unexpired after an event was not touched by
  the event: a request for its key found it, and every other request wrote elsewhere.
\<close>

lemma step_keeps_live_entry:
  assumes "cache w k = Some e" and "Value e = CDashboard d"
    and "k \<noteq> ''tests''" and "k \<noteq> ''schools''"
    and "clock (step gen ev w) < AbsoluteExpiration e"
  shows "cache (step gen ev w) k = Some e"
proof -
  have live: "clock w < AbsoluteExpiration e"
    using step_clock_mono [of w gen ev] assms(5) by linarith
  show ?thesis
  proof (cases ev)
    case (DashboardReq s y t)
    have "cache (snd (GetDashboardData s y t w)) k = Some e"
    proof (cases s y t w rule: GetDashboardData_cases)
      case miss
      have "cacheKey_of s y t \<noteq> k"
      proof
        assume "cacheKey_of s y t = k"
        then have "TryGetValue_DashboardData w (cacheKey_of s y t) = Some d"
          using assms(1,2) live by (simp add: TryGetValue_DashboardData_Some)
        with miss(2) show False by simp
      qed
      with miss(6) assms(1) show ?thesis by simp
    qed (simp_all add: assms(1))
    then show ?thesis by (simp add: DashboardReq)
  next
    case TestsReq
    show ?thesis
      unfolding TestsReq step.simps using assms(1,3)
      by (cases "TryGetValue_Tests w ''tests''") (simp_all add: GetTests_miss GetTests_hit)
  next
    case SchoolsReq
    show ?thesis
      unfolding SchoolsReq step.simps using assms(1,4)
      by (cases "TryGetValue_Schools w ''schools''") (simp_all add: GetSchools_miss GetSchools_hit)
  qed (simp_all add: assms(1))
qed

lemma run_keeps_live_entry:
  assumes "cache w k = Some e" and "Value e = CDashboard d"
    and "k \<noteq> ''tests''" and "k \<noteq> ''schools''"
    and "clock (run gen evs w) < AbsoluteExpiration e"
  shows "cache (run gen evs w) k = Some e"
  using assms(1,5)
proof (induction evs arbitrary: w)
  case Nil
  then show ?case by simp
next
  case (Cons ev evs)
  have "clock (step gen ev w) \<le> clock (run gen evs (step gen ev w))"
    by (rule run_clock_mono)
  with Cons.prems(2) have "clock (step gen ev w) < AbsoluteExpiration e" by simp
  then have "cache (step gen ev w) k = Some e"
    using step_keeps_live_entry [OF Cons.prems(1) assms(2,3,4)] by blast
  with Cons.IH Cons.prems(2) show ?case by simp
qed

lemma GetDashboardData_Ok_entry:
  assumes "GetDashboardData s y t w = (Ok d, w1)"
  shows "valid_query s y t \<and>
         (\<exists>e. cache w1 (cacheKey_of s y t) = Some e \<and> Value e = CDashboard d \<and>
              clock w1 < AbsoluteExpiration e)"
proof (cases s y t w rule: GetDashboardData_cases)
  case invalid
  with assms show ?thesis by simp
next
  case (hit d')
  with assms show ?thesis by (auto simp add: TryGetValue_DashboardData_Some)
next
  case miss
  with assms show ?thesis by (auto simp add: FromMinutes_pos)
next
  case throws
  with assms show ?thesis by simp
qed

section \<open>A repeated query\<close>

text \<open>
  Claim C3. A dashboard request has been answered with \<open>200\<close>, and the entry the cache then
  holds under its key has not yet expired when the same request comes again, whatever
  requests, passing of time and changes of the files lay in between. Then the second
  request gets the same answer and leaves the server as it found it: the data service is
  not called and the trace of file reads does not grow.
\<close>

theorem repeated_query_served_from_cache:
  assumes first: "GetDashboardData schoolId schoolYear testId w = (Ok d, w1)"
    and later: "w2 = run gen evs w1"
    and entry: "cache w1 (cacheKey_of schoolId schoolYear testId) = Some e"
    and live: "clock w2 < AbsoluteExpiration e"
  shows "GetDashboardData schoolId schoolYear testId w2 = (Ok d, w2) \<and>
         reads (snd (GetDashboardData schoolId schoolYear testId w2)) = reads w2"
proof -
  from GetDashboardData_Ok_entry [OF first] entry
  have v: "valid_query schoolId schoolYear testId" and val: "Value e = CDashboard d"
    by auto
  have "cache w2 (cacheKey_of schoolId schoolYear testId) = Some e"
    unfolding later
    using run_keeps_live_entry [OF entry val cacheKey_of_not_fixed] live later by blast
  with val live have "TryGetValue_DashboardData w2 (cacheKey_of schoolId schoolYear testId) = Some d"
    by (simp add: TryGetValue_DashboardData_Some)
  with v have "GetDashboardData schoolId schoolYear testId w2 = (Ok d, w2)"
    by (rule GetDashboardData_hit)
  then show ?thesis by simp
qed

theorem repeated_query_served_from_cache_witness:
  "fst (GetDashboardData (Some ''SCH1'') (Some ''2025-2026'') (Some ''2'')
       (fresh_server example_files)) =
     Ok (computed (Some ''2025-2026'') (Some ''2'') example_files) \<and>
   cache (snd (GetDashboardData (Some ''SCH1'') (Some ''2025-2026'') (Some ''2'')
       (fresh_server example_files))) ''dashboard_SCH1_2025-2026_2'' =
     Some \<lparr>Value = CDashboard (computed (Some ''2025-2026'') (Some ''2'') example_files),
           AbsoluteExpiration = 6006000000\<rparr> \<and>
   clock (run example_token [Tick 1000, FilesReplaced midpoint_files, TestsReq]
       (snd (GetDashboardData (Some ''SCH1'') (Some ''2025-2026'') (Some ''2'')
          (fresh_server example_files)))) = 9001000 \<and>
   GetDashboardData (Some ''SCH1'') (Some ''2025-2026'') (Some ''2'')
       (run example_token [Tick 1000, FilesReplaced midpoint_files, TestsReq]
          (snd (GetDashboardData (Some ''SCH1'') (Some ''2025-2026'') (Some ''2'')
             (fresh_server example_files)))) =
     (Ok (computed (Some ''2025-2026'') (Some ''2'') example_files),
      run example_token [Tick 1000, FilesReplaced midpoint_files, TestsReq]
          (snd (GetDashboardData (Some ''SCH1'') (Some ''2025-2026'') (Some ''2'')
             (fresh_server example_files))))"
proof -
  let ?w = "fresh_server example_files"
  let ?d = "computed (Some ''2025-2026'') (Some ''2'') example_files"
  let ?k = "cacheKey_of (Some ''SCH1'') (Some ''2025-2026'') (Some ''2'')"
  let ?w1 = "Set_entry ?k (CDashboard ?d) (FromMinutes 10) (after_reads ?w)"
  let ?e = "\<lparr>Value = CDashboard ?d, AbsoluteExpiration = 6006000000\<rparr>"
  let ?evs = "[Tick 1000, FilesReplaced midpoint_files, TestsReq]"
  have k: "?k = ''dashboard_SCH1_2025-2026_2''"
    by (simp add: cacheKey_of_def interp_def)
  have h1: "valid_query (Some ''SCH1'') (Some ''2025-2026'') (Some ''2'')"
    by (simp add: valid_query_Some)
  have h3: "readable (students_json (files ?w))" "readable (scores_json (files ?w))"
    "readable (historicalPerformance_json (files ?w))"
    by (simp_all add: readable_def example_files_def)
  have first: "GetDashboardData (Some ''SCH1'') (Some ''2025-2026'') (Some ''2'') ?w = (Ok ?d, ?w1)"
    using GetDashboardData_miss [OF h1 fresh_server_miss h3] by simp
  have entry: "cache ?w1 ?k = Some ?e"
    by (simp add: fresh_server_def FromMinutes_def TicksPerMillisecond_def)
  have miss: "TryGetValue_Tests (?w1\<lparr>clock := clock ?w1 + 1000, files := midpoint_files\<rparr>) ''tests'' = None"
    by (simp add: TryGetValue_Tests_def TryGetValue_def k fresh_server_def)
  have rd: "readable (tests_json midpoint_files)"
    by (simp add: readable_def midpoint_files_def example_files_def)
  have r: "run example_token ?evs ?w1 =
      snd (GetTests (?w1\<lparr>clock := clock ?w1 + 1000, files := midpoint_files\<rparr>))"
    by simp
  have "clock (snd (GetTests (?w1\<lparr>clock := clock ?w1 + 1000, files := midpoint_files\<rparr>))) =
      clock ?w1 + 1000 + 300 * TicksPerMillisecond"
    unfolding GetTests_miss [OF miss] using rd by simp
  then have clk: "clock (run example_token ?evs ?w1) = 9001000"
    unfolding r by (simp add: fresh_server_def TicksPerMillisecond_def)
  have live: "clock (run example_token ?evs ?w1) < AbsoluteExpiration ?e"
    by (simp only: clk) simp
  show ?thesis
    using repeated_query_served_from_cache [OF first refl entry live] first entry clk
    by (simp add: k)
qed

section \<open>The roster in the cache\<close>

lemma roster_kept_fresh: "roster_kept dir (fresh_server dir)"
  by (simp add: roster_kept_def fresh_server_def)

lemma roster_kept_step:
  assumes "roster_kept dir w" and "\<not> file_event ev"
  shows "roster_kept dir (step gen ev w)"
proof (cases ev)
  case (DashboardReq s y t)
  have "roster_kept dir (snd (GetDashboardData s y t w))"
  proof (cases s y t w rule: GetDashboardData_cases)
    case miss
    with assms(1) show ?thesis
      by (auto simp add: roster_kept_def computed_def)
  next
    case throws
    with assms(1) show ?thesis by (simp add: roster_kept_def)
  qed (simp_all add: assms(1))
  then show ?thesis by (simp add: DashboardReq)
next
  case TestsReq
  have "roster_kept dir (snd (GetTests w))"
    using assms(1)
    by (cases "TryGetValue_Tests w ''tests''")
       (auto simp add: GetTests_miss GetTests_hit roster_kept_def)
  then show ?thesis by (simp add: TestsReq)
next
  case SchoolsReq
  have "roster_kept dir (snd (GetSchools w))"
    using assms(1)
    by (cases "TryGetValue_Schools w ''schools''")
       (auto simp add: GetSchools_miss GetSchools_hit roster_kept_def)
  then show ?thesis by (simp add: SchoolsReq)
next
  case (LoginReq r)
  with assms(1) show ?thesis by (simp add: roster_kept_def)
next
  case (Tick n)
  with assms(1) show ?thesis by (simp add: roster_kept_def)
next
  case (FilesReplaced d)
  with assms(2) show ?thesis by simp
qed

lemma roster_kept_run:
  "roster_kept dir w \<Longrightarrow> \<forall>ev \<in> set evs. \<not> file_event ev \<Longrightarrow> roster_kept dir (run gen evs w)"
  by (induction evs arbitrary: w) (simp_all add: roster_kept_step)

lemma GetStudentsAsync_readable:
  "readable (students_json (files w)) \<Longrightarrow>
   fst (GetStudentsAsync w) = Inr (contents (students_json (files w)))"
  by (simp add: GetStudentsAsync_def ReadJsonFileAsync_readable)

text \<open>
  The server starts with an empty cache and serves any requests while time passes and the
  files stay as they are. Every \<open>200\<close> answer to a dashboard request, computed or taken from
  the cache, then carries the whole roster the data service returns and its length as
  \<open>TotalStudents\<close>, whatever the number of scores of the queried test; a computed answer for
  a test without scores has the class average \<open>0\<close> beside it.
\<close>

lemma roster_length_in_every_answer:
  assumes static: "\<forall>ev \<in> set evs. \<not> file_event ev"
    and reached: "w = run gen evs (fresh_server dir)"
    and ok: "fst (GetDashboardData schoolId schoolYear testId w) = Ok d"
  shows "fst (GetStudentsAsync w) = Inr (Students d) \<and>
         TotalStudents (AggregateScores d) = int (length (Students d)) \<and>
         (TryGetValue_DashboardData w (cacheKey_of schoolId schoolYear testId) = None \<and>
          matching testId (contents (scores_json dir)) = []
            \<longrightarrow> AggregateScore.ClassAverage (AggregateScores d) = 0)"
proof -
  have inv: "roster_kept dir w"
    unfolding reached using roster_kept_fresh static by (rule roster_kept_run)
  then have f: "files w = dir" by (simp add: roster_kept_def)
  show ?thesis
  proof (cases schoolId schoolYear testId w rule: GetDashboardData_cases)
    case invalid
    with ok show ?thesis by simp
  next
    case (hit d')
    with ok have "d' = d" by simp
    with hit(2) obtain e where "cache w (cacheKey_of schoolId schoolYear testId) = Some e"
      "Value e = CDashboard d"
      by (auto simp add: TryGetValue_DashboardData_Some)
    with inv have "readable (students_json dir) \<and> Students d = contents (students_json dir) \<and>
         TotalStudents (AggregateScores d) = int (length (contents (students_json dir)))"
      unfolding roster_kept_def by blast
    with f hit(2) \<open>d' = d\<close> show ?thesis
      by (simp add: GetStudentsAsync_readable)
  next
    case miss
    with ok have "d = computed schoolYear testId (files w)" by simp
    with miss(3) f show ?thesis
      by (simp add: GetStudentsAsync_readable computed_def)
  next
    case throws
    with ok show ?thesis by simp
  qed
qed

lemma roster_length_in_every_answer_example:
  "fst (GetDashboardData (Some ''SCH1'') (Some ''2025-2026'') (Some ''T9'')
      (run example_token [DashboardReq (Some ''SCH1'') (Some ''2025-2026'') (Some ''2''), Tick 5]
         (fresh_server example_files))) =
     Ok (computed (Some ''2025-2026'') (Some ''T9'') example_files) \<and>
   fst (GetStudentsAsync
      (run example_token [DashboardReq (Some ''SCH1'') (Some ''2025-2026'') (Some ''2''), Tick 5]
         (fresh_server example_files))) =
     Inr [student ''s1'' ''Ann'', student ''s2'' ''Bob'', student ''s3'' ''Cy''] \<and>
   TotalStudents (AggregateScores (computed (Some ''2025-2026'') (Some ''T9'') example_files)) = 3 \<and>
   Scores (computed (Some ''2025-2026'') (Some ''T9'') example_files) = [] \<and>
   AggregateScore.ClassAverage
     (AggregateScores (computed (Some ''2025-2026'') (Some ''T9'') example_files)) = 0"
proof -
  let ?init = "fresh_server example_files"
  let ?evs = "[DashboardReq (Some ''SCH1'') (Some ''2025-2026'') (Some ''2''), Tick 5]"
  let ?dtwo = "computed (Some ''2025-2026'') (Some ''2'') example_files"
  let ?dnine = "computed (Some ''2025-2026'') (Some ''T9'') example_files"
  let ?ktwo = "cacheKey_of (Some ''SCH1'') (Some ''2025-2026'') (Some ''2'')"
  let ?after = "Set_entry ?ktwo (CDashboard ?dtwo) (FromMinutes 10) (after_reads ?init)"
  let ?w = "?after\<lparr>clock := clock ?after + 5\<rparr>"
  have v2: "valid_query (Some ''SCH1'') (Some ''2025-2026'') (Some ''2'')"
    and v9: "valid_query (Some ''SCH1'') (Some ''2025-2026'') (Some ''T9'')"
    by (simp_all add: valid_query_Some)
  have rd0: "readable (students_json (files ?init))" "readable (scores_json (files ?init))"
    "readable (historicalPerformance_json (files ?init))"
    by (simp_all add: readable_def example_files_def)
  have first: "GetDashboardData (Some ''SCH1'') (Some ''2025-2026'') (Some ''2'') ?init = (Ok ?dtwo, ?after)"
    using GetDashboardData_miss [OF v2 fresh_server_miss rd0] by simp
  have w: "run example_token ?evs ?init = ?w"
    by (simp add: first)
  have fw: "files ?w = example_files" by simp
  have rd: "readable (students_json (files ?w))" "readable (scores_json (files ?w))"
    "readable (historicalPerformance_json (files ?w))"
    unfolding fw by (simp_all add: readable_def example_files_def)
  have miss: "TryGetValue_DashboardData ?w
      (cacheKey_of (Some ''SCH1'') (Some ''2025-2026'') (Some ''T9'')) = None"
    by (simp add: TryGetValue_DashboardData_def TryGetValue_def cacheKey_of_def interp_def
        fresh_server_def)
  have ok: "fst (GetDashboardData (Some ''SCH1'') (Some ''2025-2026'') (Some ''T9'')
      (run example_token ?evs ?init)) = Ok ?dnine"
    unfolding w using GetDashboardData_miss [OF v9 miss rd] by (simp only: fst_conv fw)
  have static: "\<forall>ev \<in> set ?evs. \<not> file_event ev" by simp
  have st: "Students ?dnine = [student ''s1'' ''Ann'', student ''s2'' ''Bob'', student ''s3'' ''Cy'']"
    by (simp add: computed_def example_files_def)
  have m: "matching (Some ''T9'') (contents (scores_json example_files)) = []"
    by (simp add: matching_def example_files_def score_def)
  have miss': "TryGetValue_DashboardData (run example_token ?evs ?init)
      (cacheKey_of (Some ''SCH1'') (Some ''2025-2026'') (Some ''T9'')) = None"
    unfolding w by (rule miss)
  have sc: "Scores ?dnine = []"
    by (simp add: computed_def m)
  show ?thesis
    using roster_length_in_every_answer [OF static refl ok] ok st m miss' sc
    by simp
qed

section \<open>Files that cannot be read\<close>

text \<open>
  Claim C7, as the code has it. A read of a file that does not exist does not fail: it
  returns the empty list. A dashboard request that misses the cache is answered with the
  three collections as read (empty for a missing file) when no read throws; when a file is
  there and reading or parsing it throws, the answer is \<open>500\<close> with a message only, and the
  cache and the files are as before.
\<close>

theorem unreadable_file_fails_request:
  assumes "valid_query schoolId schoolYear testId"
    and "TryGetValue_DashboardData w (cacheKey_of schoolId schoolYear testId) = None"
  shows "(students_json (files w) = Missing \<longrightarrow> fst (GetStudentsAsync w) = Inr []) \<and>
         (readable (students_json (files w)) \<and> readable (scores_json (files w)) \<and>
          readable (historicalPerformance_json (files w)) \<longrightarrow>
            (\<exists>d. fst (GetDashboardData schoolId schoolYear testId w) = Ok d \<and>
                 Students d = contents (students_json (files w)) \<and>
                 Scores d = matching testId (contents (scores_json (files w))) \<and>
                 HistoricalPerformance d = contents (historicalPerformance_json (files w)))) \<and>
         (\<not> (readable (students_json (files w)) \<and> readable (scores_json (files w)) \<and>
             readable (historicalPerformance_json (files w))) \<longrightarrow>
            fst (GetDashboardData schoolId schoolYear testId w) = StatusCode 500 dashboard_error \<and>
            cache (snd (GetDashboardData schoolId schoolYear testId w)) = cache w \<and>
            files (snd (GetDashboardData schoolId schoolYear testId w)) = files w)"
proof (intro conjI impI)
  assume "students_json (files w) = Missing"
  then show "fst (GetStudentsAsync w) = Inr []"
    by (simp add: GetStudentsAsync_def)
next
  assume r: "readable (students_json (files w)) \<and> readable (scores_json (files w)) \<and>
          readable (historicalPerformance_json (files w))"
  then have "GetDashboardData schoolId schoolYear testId w =
           (Ok (computed schoolYear testId (files w)),
            Set_entry (cacheKey_of schoolId schoolYear testId)
              (CDashboard (computed schoolYear testId (files w))) (FromMinutes 10) (after_reads w))"
    using GetDashboardData_miss [OF assms] by blast
  then show "\<exists>d. fst (GetDashboardData schoolId schoolYear testId w) = Ok d \<and>
                 Students d = contents (students_json (files w)) \<and>
                 Scores d = matching testId (contents (scores_json (files w))) \<and>
                 HistoricalPerformance d = contents (historicalPerformance_json (files w))"
    by (simp add: computed_def)
next
  assume n: "\<not> (readable (students_json (files w)) \<and> readable (scores_json (files w)) \<and>
             readable (historicalPerformance_json (files w)))"
  from GetDashboardData_miss_throws [OF assms n]
  show "fst (GetDashboardData schoolId schoolYear testId w) = StatusCode 500 dashboard_error"
    and "cache (snd (GetDashboardData schoolId schoolYear testId w)) = cache w"
    and "files (snd (GetDashboardData schoolId schoolYear testId w)) = files w"
    by blast+
qed

theorem unreadable_file_fails_request_witness:
  "valid_query (Some ''SCH1'') (Some ''2025-2026'') (Some ''2'') \<and>
   TryGetValue_DashboardData (fresh_server unreadable_scores_files)
     (cacheKey_of (Some ''SCH1'') (Some ''2025-2026'') (Some ''2'')) = None \<and>
   \<not> readable (scores_json (files (fresh_server unreadable_scores_files))) \<and>
   fst (GetDashboardData (Some ''SCH1'') (Some ''2025-2026'') (Some ''2'')
      (fresh_server unreadable_scores_files)) = StatusCode 500 dashboard_error \<and>
   cache (snd (GetDashboardData (Some ''SCH1'') (Some ''2025-2026'') (Some ''2'')
      (fresh_server unreadable_scores_files))) = Map.empty"
proof -
  have h1: "valid_query (Some ''SCH1'') (Some ''2025-2026'') (Some ''2'')"
    by (simp add: valid_query_Some)
  have n: "\<not> readable (scores_json (files (fresh_server unreadable_scores_files)))"
    by (simp add: readable_def unreadable_scores_files_def)
  have c: "cache (fresh_server unreadable_scores_files) = Map.empty"
    by (simp add: fresh_server_def)
  show ?thesis
    using unreadable_file_fails_request [OF h1 fresh_server_miss, of unreadable_scores_files]
      h1 n c fresh_server_miss [of unreadable_scores_files]
    by simp
qed

theorem missing_file_counterexample:
  "fst (GetStudentsAsync (fresh_server no_roster_files)) = Inr [] \<and>
   fst (GetDashboardData (Some ''SCH1'') (Some ''2025-2026'') (Some ''2'')
      (fresh_server no_roster_files)) =
     Ok \<lparr>Students = [],
         Scores = [score ''s1'' ''2'' 80, score ''s2'' ''2'' 90],
         AggregateScores =
           \<lparr>AggregateScore.TestId = ''2'', SchoolYear = ''2025-2026'',
            AggregateScore.ClassAverage = 85, AggregateScore.SchoolAverage = 81.5,
            AggregateScore.DistrictAverage = 79.3, TotalStudents = 0\<rparr>,
         HistoricalPerformance = []\<rparr>"
proof -
  have h1: "valid_query (Some ''SCH1'') (Some ''2025-2026'') (Some ''2'')"
    by (simp add: valid_query_Some)
  have rd: "readable (students_json (files (fresh_server no_roster_files)))"
    "readable (scores_json (files (fresh_server no_roster_files)))"
    "readable (historicalPerformance_json (files (fresh_server no_roster_files)))"
    by (simp_all add: readable_def no_roster_files_def example_files_def)
  have m: "matching (Some ''2'') (contents (scores_json no_roster_files)) =
      [score ''s1'' ''2'' 80, score ''s2'' ''2'' 90]"
    by (simp add: matching_def score_def no_roster_files_def example_files_def)
  have mn: "mean [score ''s1'' ''2'' 80, score ''s2'' ''2'' 90] = 85"
    by (simp add: mean_def score_def)
  have "Math_Round 85 1 = 85"
    by (simp add: Math_Round_def Round_ToEven_def)
  then have "computed (Some ''2025-2026'') (Some ''2'') no_roster_files =
     \<lparr>Students = [],
         Scores = [score ''s1'' ''2'' 80, score ''s2'' ''2'' 90],
         AggregateScores =
           \<lparr>AggregateScore.TestId = ''2'', SchoolYear = ''2025-2026'',
            AggregateScore.ClassAverage = 85, AggregateScore.SchoolAverage = 81.5,
            AggregateScore.DistrictAverage = 79.3, TotalStudents = 0\<rparr>,
         HistoricalPerformance = []\<rparr>"
    unfolding computed_def m mn
    by (simp add: interp_def no_roster_files_def example_files_def)
  moreover have "fst (GetStudentsAsync (fresh_server no_roster_files)) = Inr []"
    by (simp add: GetStudentsAsync_def no_roster_files_def)
  ultimately show ?thesis
    using GetDashboardData_miss [OF h1 fresh_server_miss rd] by simp
qed

section \<open>Expired entries\<close>


lemma TryGetValue_evict [simp]: "TryGetValue (evict k w) k = None"
  by (simp add: TryGetValue_def evict_def)

lemma evict_fields [simp]:
  "files (evict k w) = files w" "clock (evict k w) = clock w" "reads (evict k w) = reads w"
  by (simp_all add: evict_def)

lemma GetDashboardData_miss_fst:
  assumes "valid_query s y t" and "TryGetValue_DashboardData w (cacheKey_of s y t) = None"
  shows "fst (GetDashboardData s y t w) =
     (if readable (students_json (files w)) \<and> readable (scores_json (files w)) \<and>
         readable (historicalPerformance_json (files w))
      then Ok (computed y t (files w)) else StatusCode 500 dashboard_error)"
proof (cases "readable (students_json (files w)) \<and> readable (scores_json (files w)) \<and>
         readable (historicalPerformance_json (files w))")
  case True
  then show ?thesis using GetDashboardData_miss [OF assms] by simp
next
  case False
  then show ?thesis using GetDashboardData_miss_throws [OF assms False] by simp
qed





section \<open>Expiry\<close>



section \<open>The login action\<close>

lemma Login_readable:
  assumes "readable (users_json (files w))"
  shows "fst (Login gen request w) =
     (case find (\<lambda>u. User.Username u = LoginRequest.Username request \<and>
                      PasswordHash u = Password request) (contents (users_json (files w))) of
        None \<Rightarrow> Unauthorized ''Invalid credentials''
      | Some user \<Rightarrow>
          (case gen (User.Id user) (User.Username user) (User.Role user) of
             Inl ex \<Rightarrow> StatusCode 500 login_error
           | Inr token \<Rightarrow>
               Ok \<lparr>User = \<lparr>UserDto.Id = User.Id user,
                           UserDto.Username = User.Username user,
                           UserDto.Name = User.Name user,
                           UserDto.Email = User.Email user,
                           UserDto.Role = User.Role user\<rparr>,
                   Token = token\<rparr>))"
  using assms
  by (simp add: Login_def GetUsersAsync_def ReadJsonFileAsync_readable
      split: option.splits sum.splits)

lemma Login_unreadable:
  assumes "\<not> readable (users_json (files w))"
  shows "fst (Login gen request w) = StatusCode 500 login_error"
proof -
  obtain ex where "ReadJsonFileAsync ''users.json'' (users_json (files w)) (Task_Delay 800 w) =
      (Inl ex, accessed ''users.json'' (Task_Delay 800 w))"
    using ReadJsonFileAsync_unreadable [OF assms] by (metis Task_Delay_fields(1))
  then show ?thesis
    by (simp add: Login_def GetUsersAsync_def)
qed

section \<open>Login\<close>

text \<open>
  Claim C8. With a token service that does not throw, \<open>Login\<close> answers \<open>200\<close> exactly when
  the users file can be read and some user in it has the request's user name and the
  request's password; the answer then carries the first such user and the token generated
  for it. When the file is read and no user matches, the answer is \<open>401\<close> with the message
  \<open>Invalid credentials\<close>, and the token service is not called.
\<close>

theorem login_succeeds_iff_credentials_match:
  assumes tok: "\<forall>uid uname urole. \<exists>t. GenerateToken uid uname urole = Inr t"
  shows "((\<exists>resp. fst (Login GenerateToken request w) = Ok resp) =
            (readable (users_json (files w)) \<and>
             (\<exists>u \<in> set (contents (users_json (files w))).
                User.Username u = LoginRequest.Username request \<and>
                PasswordHash u = Password request))) \<and>
         (readable (users_json (files w)) \<and>
          \<not> (\<exists>u \<in> set (contents (users_json (files w))).
                User.Username u = LoginRequest.Username request \<and>
                PasswordHash u = Password request)
            \<longrightarrow> fst (Login GenerateToken request w) = Unauthorized ''Invalid credentials'') \<and>
         (\<forall>resp. fst (Login GenerateToken request w) = Ok resp \<longrightarrow>
            (\<exists>u \<in> set (contents (users_json (files w))).
                User.Username u = LoginRequest.Username request \<and>
                PasswordHash u = Password request \<and>
                UserDto.Id (User resp) = User.Id u \<and>
                UserDto.Username (User resp) = User.Username u \<and>
                UserDto.Role (User resp) = User.Role u \<and>
                GenerateToken (User.Id u) (User.Username u) (User.Role u) = Inr (Token resp)))"
proof (cases "readable (users_json (files w))")
  case False
  then show ?thesis by (simp add: Login_unreadable)
next
  case True
  let ?p = "\<lambda>u. User.Username u = LoginRequest.Username request \<and> PasswordHash u = Password request"
  let ?us = "contents (users_json (files w))"
  show ?thesis
  proof (cases "find ?p ?us")
    case None
    then have "\<not> (\<exists>u \<in> set ?us. ?p u)"
      by (simp add: find_None_iff)
    with True None show ?thesis
      by (simp add: Login_readable)
  next
    case (Some user)
    then have m: "user \<in> set ?us" "?p user"
      by (auto simp add: find_Some_iff)
    from tok obtain t where t: "GenerateToken (User.Id user) (User.Username user) (User.Role user) = Inr t"
      by blast
    have "fst (Login GenerateToken request w) =
        Ok \<lparr>User = \<lparr>UserDto.Id = User.Id user,
                           UserDto.Username = User.Username user,
                           UserDto.Name = User.Name user,
                           UserDto.Email = User.Email user,
                           UserDto.Role = User.Role user\<rparr>,
                   Token = t\<rparr>"
      using True Some t by (simp add: Login_readable)
    with True m t show ?thesis by auto
  qed
qed

theorem login_succeeds_iff_credentials_match_witness:
  "fst (Login example_token \<lparr>LoginRequest.Username = ''teacher'', Password = ''password''\<rparr>
         (fresh_server example_files)) =
     Ok \<lparr>User = \<lparr>UserDto.Id = ''1'', UserDto.Username = ''teacher'',
                 UserDto.Name = ''Jane Teacher'', UserDto.Email = ''teacher@school.edu'',
                 UserDto.Role = ''Teacher''\<rparr>,
         Token = ''token-1''\<rparr> \<and>
   fst (Login example_token \<lparr>LoginRequest.Username = ''teacher'', Password = ''guess''\<rparr>
         (fresh_server example_files)) = Unauthorized ''Invalid credentials''"
proof -
  have tok: "\<forall>uid uname urole. \<exists>t. example_token uid uname urole = Inr t"
    by (simp add: example_token_def)
  have rd: "readable (users_json (files (fresh_server example_files)))"
    by (simp add: readable_def example_files_def)
  have us: "contents (users_json (files (fresh_server example_files))) = [teacher]"
    by (simp add: example_files_def)
  have no: "\<not> (\<exists>u \<in> set (contents (users_json (files (fresh_server example_files)))).
      User.Username u = LoginRequest.Username \<lparr>LoginRequest.Username = ''teacher'', Password = ''guess''\<rparr> \<and>
      PasswordHash u = Password \<lparr>LoginRequest.Username = ''teacher'', Password = ''guess''\<rparr>)"
    unfolding us by (simp add: teacher_def)
  have bad: "fst (Login example_token \<lparr>LoginRequest.Username = ''teacher'', Password = ''guess''\<rparr>
         (fresh_server example_files)) = Unauthorized ''Invalid credentials''"
    using login_succeeds_iff_credentials_match [OF tok,
        of "\<lparr>LoginRequest.Username = ''teacher'', Password = ''guess''\<rparr>" "fresh_server example_files"]
      rd no by blast
  have good: "fst (Login example_token \<lparr>LoginRequest.Username = ''teacher'', Password = ''password''\<rparr>
         (fresh_server example_files)) =
     Ok \<lparr>User = \<lparr>UserDto.Id = ''1'', UserDto.Username = ''teacher'',
                 UserDto.Name = ''Jane Teacher'', UserDto.Email = ''teacher@school.edu'',
                 UserDto.Role = ''Teacher''\<rparr>,
         Token = ''token-1''\<rparr>"
    unfolding Login_readable [OF rd] us by (simp add: teacher_def example_token_def)
  from good bad show ?thesis by simp
qed

section \<open>The gate\<close>

lemma Authorize_rejects:
  "bearer = None \<or> (\<exists>jwt. bearer = Some jwt \<and> \<not> ValidateToken p (clock w) jwt) \<Longrightarrow>
   Authorize p bearer action w = (Unauthorized [], w)"
  by (auto simp add: Authorize_def)

lemma Authorize_accepts:
  "bearer = Some jwt \<Longrightarrow> ValidateToken p (clock w) jwt \<Longrightarrow> Authorize p bearer action w = action w"
  by (simp add: Authorize_def)

lemma ValidateToken_Program:
  "ValidateToken (Program_TokenValidationParameters js) now jwt =
     (signed_with jwt = Secret js \<and>
      (\<exists>e. exp jwt = Some e \<and> now - DefaultClockSkew \<le> e) \<and>
      iss jwt = Issuer js \<and> aud jwt = Audience js)"
  by (auto simp add: ValidateToken_def lifetime_ok_def Program_TokenValidationParameters_def
      split: option.splits)

text \<open>
  Claim C9, as the code has it. A request to the dashboard, tests or schools route is
  answered with \<open>401\<close> and leaves the server as it was (the action does not run) when it
  carries no token, or a token whose signature was not made with the server's secret, or a
  token without an expiry, or a token whose expiry lies more than the clock skew of five
  minutes in the past. \<open>Program.cs\<close> leaves \<open>ClockSkew\<close> at its default, so a token that
  expired less than five minutes ago still passes the gate.
\<close>

theorem invalid_token_is_rejected:
  assumes "bearer = None \<or>
           (\<exists>jwt. bearer = Some jwt \<and>
              (signed_with jwt \<noteq> Secret jwtSettings \<or> exp jwt = None \<or>
               (\<exists>e. exp jwt = Some e \<and> e + DefaultClockSkew < clock w)))"
  shows "api_dashboard jwtSettings bearer schoolId schoolYear testId w = (Unauthorized [], w) \<and>
         api_tests jwtSettings bearer w = (Unauthorized [], w) \<and>
         api_schools jwtSettings bearer w = (Unauthorized [], w)"
proof -
  have "bearer = None \<or>
      (\<exists>jwt. bearer = Some jwt \<and>
         \<not> ValidateToken (Program_TokenValidationParameters jwtSettings) (clock w) jwt)"
    using assms by (auto simp add: ValidateToken_Program)
  then show ?thesis
    by (simp add: api_dashboard_def api_tests_def api_schools_def Authorize_rejects)
qed

theorem invalid_token_is_rejected_witness:
  "exp long_expired_jwt = Some 14000000000 \<and>
   (14000000000 :: int) + DefaultClockSkew < clock stale_server \<and>
   api_dashboard example_settings (Some long_expired_jwt)
     (Some ''SCH1'') (Some ''2025-2026'') (Some ''2'') stale_server = (Unauthorized [], stale_server) \<and>
   api_tests example_settings (Some long_expired_jwt) stale_server = (Unauthorized [], stale_server) \<and>
   api_schools example_settings (Some long_expired_jwt) stale_server =
     (Unauthorized [], stale_server)"
proof -
  have e: "exp long_expired_jwt = Some 14000000000"
    by (simp add: long_expired_jwt_def)
  have l: "(14000000000 :: int) + DefaultClockSkew < clock stale_server"
    by (simp add: DefaultClockSkew_def TicksPerMillisecond_def stale_server_def)
  have h: "Some long_expired_jwt = None \<or>
           (\<exists>jwt. Some long_expired_jwt = Some jwt \<and>
              (signed_with jwt \<noteq> Secret example_settings \<or> exp jwt = None \<or>
               (\<exists>e. exp jwt = Some e \<and> e + DefaultClockSkew < clock stale_server)))"
    using e l by simp
  show ?thesis
    using invalid_token_is_rejected [OF h, of "Some ''SCH1''" "Some ''2025-2026''" "Some ''2''"] e l
    by simp
qed

theorem expired_token_counterexample:
  "exp just_expired_jwt = Some 19400000000 \<and>
   (19400000000 :: int) < clock stale_server \<and>
   signed_with just_expired_jwt = Secret example_settings \<and>
   api_tests example_settings (Some just_expired_jwt) stale_server = GetTests stale_server \<and>
   status (fst (api_tests example_settings (Some just_expired_jwt) stale_server)) = 200 \<and>
   reads (snd (api_tests example_settings (Some just_expired_jwt) stale_server)) = [''tests.json'']"
proof -
  have v: "ValidateToken (Program_TokenValidationParameters example_settings) (clock stale_server)
      just_expired_jwt"
    by (simp add: ValidateToken_Program just_expired_jwt_def example_settings_def
        DefaultClockSkew_def TicksPerMillisecond_def stale_server_def)
  have a: "api_tests example_settings (Some just_expired_jwt) stale_server = GetTests stale_server"
    unfolding api_tests_def using v by (simp add: Authorize_accepts)
  have m: "TryGetValue_Tests stale_server ''tests'' = None"
    by (simp add: TryGetValue_Tests_def TryGetValue_def stale_server_def)
  have g: "status (fst (GetTests stale_server)) = 200"
    "reads (snd (GetTests stale_server)) = [''tests.json'']"
    unfolding GetTests_miss [OF m]
    by (simp_all add: stale_server_def readable_def example_files_def)
  show ?thesis
    using a g by (simp add: just_expired_jwt_def example_settings_def stale_server_def)
qed

section \<open>School and school year\<close>

text \<open>
  On the path that computes, the school and the school year do not select data: two
  dashboards computed from the same files for the same test differ at most in the school
  year they echo.
\<close>

lemma computed_ignores_school_year:
  "Students (computed y1 t dir) = Students (computed y2 t dir) \<and>
   Scores (computed y1 t dir) = Scores (computed y2 t dir) \<and>
   HistoricalPerformance (computed y1 t dir) = HistoricalPerformance (computed y2 t dir) \<and>
   AggregateScore.ClassAverage (AggregateScores (computed y1 t dir)) =
     AggregateScore.ClassAverage (AggregateScores (computed y2 t dir)) \<and>
   AggregateScore.SchoolAverage (AggregateScores (computed y1 t dir)) = 81.5 \<and>
   AggregateScore.DistrictAverage (AggregateScores (computed y1 t dir)) = 79.3"
  by (simp add: computed_def)

lemma misses_ignore_school_and_year:
  assumes "valid_query s1 y1 t" and "valid_query s2 y2 t"
    and "TryGetValue_DashboardData w (cacheKey_of s1 y1 t) = None"
    and "TryGetValue_DashboardData w (cacheKey_of s2 y2 t) = None"
    and "fst (GetDashboardData s1 y1 t w) = Ok d1"
  shows "\<exists>d2. fst (GetDashboardData s2 y2 t w) = Ok d2 \<and>
           Students d1 = Students d2 \<and> Scores d1 = Scores d2 \<and>
           HistoricalPerformance d1 = HistoricalPerformance d2 \<and>
           AggregateScore.ClassAverage (AggregateScores d1) =
             AggregateScore.ClassAverage (AggregateScores d2) \<and>
           AggregateScore.SchoolAverage (AggregateScores d2) = 81.5 \<and>
           AggregateScore.DistrictAverage (AggregateScores d2) = 79.3"
proof -
  from assms(5) have r: "readable (students_json (files w)) \<and> readable (scores_json (files w)) \<and>
         readable (historicalPerformance_json (files w))"
    and d1: "d1 = computed y1 t (files w)"
    using GetDashboardData_miss_fst [OF assms(1,3)] by (auto split: if_splits)
  then have "fst (GetDashboardData s2 y2 t w) = Ok (computed y2 t (files w))"
    using GetDashboardData_miss_fst [OF assms(2,4)] by simp
  then show ?thesis
    using computed_ignores_school_year [of y1 t "files w" y2]
      computed_ignores_school_year [of y2 t "files w" y1] d1 by simp
qed

text \<open>
  Claim C10, evaluated where it fails. The cache key joins the three parameters with
  underscores, so the triples \<open>(SCH1, 2025, 2026_1)\<close> and \<open>(SCH1, 2025_2026, 1)\<close> have one
  key. After a request for the first triple, a request for the second is answered from
  the cache with the dashboard of test \<open>2026_1\<close> (no scores, class average \<open>0\<close>), while a
  request for the same test \<open>1\<close> and school year at school \<open>SCH2\<close> is computed and carries the
  score of test \<open>1\<close> and the class average \<open>50\<close>.
\<close>

theorem colliding_cache_key_serves_other_test:
  "cacheKey_of (Some ''SCH1'') (Some ''2025'') (Some ''2026_1'') =
     cacheKey_of (Some ''SCH1'') (Some ''2025_2026'') (Some ''1'') \<and>
   scores_of (fst (GetDashboardData (Some ''SCH1'') (Some ''2025_2026'') (Some ''1'')
     (run example_token [DashboardReq (Some ''SCH1'') (Some ''2025'') (Some ''2026_1'')]
        (fresh_server example_files)))) = Some [] \<and>
   scores_of (fst (GetDashboardData (Some ''SCH2'') (Some ''2025_2026'') (Some ''1'')
     (run example_token [DashboardReq (Some ''SCH1'') (Some ''2025'') (Some ''2026_1'')]
        (fresh_server example_files)))) = Some [score ''s3'' ''1'' 50] \<and>
   class_average (fst (GetDashboardData (Some ''SCH1'') (Some ''2025_2026'') (Some ''1'')
     (run example_token [DashboardReq (Some ''SCH1'') (Some ''2025'') (Some ''2026_1'')]
        (fresh_server example_files)))) = Some 0 \<and>
   class_average (fst (GetDashboardData (Some ''SCH2'') (Some ''2025_2026'') (Some ''1'')
     (run example_token [DashboardReq (Some ''SCH1'') (Some ''2025'') (Some ''2026_1'')]
        (fresh_server example_files)))) = Some 50"
proof -
  let ?init = "fresh_server example_files"
  let ?da = "computed (Some ''2025'') (Some ''2026_1'') example_files"
  let ?dc = "computed (Some ''2025_2026'') (Some ''1'') example_files"
  let ?k = "cacheKey_of (Some ''SCH1'') (Some ''2025'') (Some ''2026_1'')"
  let ?after = "Set_entry ?k (CDashboard ?da) (FromMinutes 10) (after_reads ?init)"
  have keys: "?k = cacheKey_of (Some ''SCH1'') (Some ''2025_2026'') (Some ''1'')"
    by (simp add: cacheKey_of_def interp_def)
  have va: "valid_query (Some ''SCH1'') (Some ''2025'') (Some ''2026_1'')"
    and vb: "valid_query (Some ''SCH1'') (Some ''2025_2026'') (Some ''1'')"
    and vc: "valid_query (Some ''SCH2'') (Some ''2025_2026'') (Some ''1'')"
    by (simp_all add: valid_query_Some)
  have rd: "readable (students_json (files ?init))" "readable (scores_json (files ?init))"
    "readable (historicalPerformance_json (files ?init))"
    by (simp_all add: readable_def example_files_def)
  have first: "GetDashboardData (Some ''SCH1'') (Some ''2025'') (Some ''2026_1'') ?init =
      (Ok ?da, ?after)"
    using GetDashboardData_miss [OF va fresh_server_miss rd] by simp
  have w: "run example_token [DashboardReq (Some ''SCH1'') (Some ''2025'') (Some ''2026_1'')] ?init
      = ?after"
    by (simp add: first)
  have hit: "TryGetValue_DashboardData ?after
      (cacheKey_of (Some ''SCH1'') (Some ''2025_2026'') (Some ''1'')) = Some ?da"
    unfolding keys [symmetric] TryGetValue_DashboardData_Some
    by (simp add: FromMinutes_def TicksPerMillisecond_def)
  have b: "fst (GetDashboardData (Some ''SCH1'') (Some ''2025_2026'') (Some ''1'') ?after) = Ok ?da"
    using GetDashboardData_hit [OF vb hit] by simp
  have miss: "TryGetValue_DashboardData ?after
      (cacheKey_of (Some ''SCH2'') (Some ''2025_2026'') (Some ''1'')) = None"
    by (simp add: TryGetValue_DashboardData_def TryGetValue_def cacheKey_of_def interp_def
        fresh_server_def)
  have fa: "files ?after = example_files" by simp
  have c: "fst (GetDashboardData (Some ''SCH2'') (Some ''2025_2026'') (Some ''1'') ?after) = Ok ?dc"
    unfolding GetDashboardData_miss_fst [OF vc miss] fa
    by (simp add: readable_def example_files_def)
  have ma: "matching (Some ''2026_1'') (contents (scores_json example_files)) = []"
    by (simp add: matching_def example_files_def score_def)
  have mc: "matching (Some ''1'') (contents (scores_json example_files)) = [score ''s3'' ''1'' 50]"
    by (simp add: matching_def example_files_def score_def)
  have sa: "Scores ?da = []" and aa: "AggregateScore.ClassAverage (AggregateScores ?da) = 0"
    unfolding computed_def ma by simp_all
  have mn: "mean [score ''s3'' ''1'' 50] = 50"
    by (simp add: mean_def score_def)
  have sc: "Scores ?dc = [score ''s3'' ''1'' 50]"
    unfolding computed_def mc by simp
  have ac: "AggregateScore.ClassAverage (AggregateScores ?dc) = 50"
    unfolding computed_def mc mn by (simp add: Math_Round_def Round_ToEven_def)
  show ?thesis
    unfolding w using keys b c sa aa sc ac
    by (simp add: scores_of_def class_average_def)
qed

section \<open>The number of students after a colliding request\<close>

text \<open>
  Claim C6, evaluated where it fails. The triples \<open>(SCH1, 2025_2026, 1)\<close> and
  \<open>(SCH1, 2025, 2026_1)\<close> have one cache key. After a request for the first, a request for
  the second is answered from the cache: no score of the files has the test \<open>2026_1\<close>, yet
  the answer carries the class average \<open>50\<close> of test \<open>1\<close>. The number of students it reports
  is still the length of the roster, \<open>3\<close>.
\<close>

theorem colliding_cache_key_serves_other_average:
  "matching (Some ''2026_1'') (contents (scores_json example_files)) = [] \<and>
   class_average (fst (GetDashboardData (Some ''SCH1'') (Some ''2025'') (Some ''2026_1'')
     (run example_token [DashboardReq (Some ''SCH1'') (Some ''2025_2026'') (Some ''1'')]
        (fresh_server example_files)))) = Some 50 \<and>
   total_students_of (fst (GetDashboardData (Some ''SCH1'') (Some ''2025'') (Some ''2026_1'')
     (run example_token [DashboardReq (Some ''SCH1'') (Some ''2025_2026'') (Some ''1'')]
        (fresh_server example_files)))) = Some 3 \<and>
   length (contents (students_json example_files)) = 3"
proof -
  let ?init = "fresh_server example_files"
  let ?d = "computed (Some ''2025_2026'') (Some ''1'') example_files"
  let ?k = "cacheKey_of (Some ''SCH1'') (Some ''2025_2026'') (Some ''1'')"
  let ?after = "Set_entry ?k (CDashboard ?d) (FromMinutes 10) (after_reads ?init)"
  have keys: "?k = cacheKey_of (Some ''SCH1'') (Some ''2025'') (Some ''2026_1'')"
    by (simp add: cacheKey_of_def interp_def)
  have va: "valid_query (Some ''SCH1'') (Some ''2025_2026'') (Some ''1'')"
    and vb: "valid_query (Some ''SCH1'') (Some ''2025'') (Some ''2026_1'')"
    by (simp_all add: valid_query_Some)
  have rd: "readable (students_json (files ?init))" "readable (scores_json (files ?init))"
    "readable (historicalPerformance_json (files ?init))"
    by (simp_all add: readable_def example_files_def)
  have first: "GetDashboardData (Some ''SCH1'') (Some ''2025_2026'') (Some ''1'') ?init =
      (Ok ?d, ?after)"
    using GetDashboardData_miss [OF va fresh_server_miss rd] by simp
  have w: "run example_token [DashboardReq (Some ''SCH1'') (Some ''2025_2026'') (Some ''1'')] ?init
      = ?after"
    by (simp add: first)
  have hit: "TryGetValue_DashboardData ?after
      (cacheKey_of (Some ''SCH1'') (Some ''2025'') (Some ''2026_1'')) = Some ?d"
    unfolding keys [symmetric] TryGetValue_DashboardData_Some
    by (simp add: FromMinutes_def TicksPerMillisecond_def)
  have b: "fst (GetDashboardData (Some ''SCH1'') (Some ''2025'') (Some ''2026_1'') ?after) = Ok ?d"
    using GetDashboardData_hit [OF vb hit] by simp
  have none: "matching (Some ''2026_1'') (contents (scores_json example_files)) = []"
    by (simp add: matching_def example_files_def score_def)
  have mc: "matching (Some ''1'') (contents (scores_json example_files)) = [score ''s3'' ''1'' 50]"
    by (simp add: matching_def example_files_def score_def)
  have mn: "mean [score ''s3'' ''1'' 50] = 50"
    by (simp add: mean_def score_def)
  have av: "AggregateScore.ClassAverage (AggregateScores ?d) = 50"
    unfolding computed_def mc mn by (simp add: Math_Round_def Round_ToEven_def)
  have n: "length (contents (students_json example_files)) = 3"
    by (simp add: example_files_def)
  have ts: "TotalStudents (AggregateScores ?d) = 3"
    unfolding computed_def by (simp add: n)
  show ?thesis
    unfolding w using none b av ts n
    by (simp add: class_average_def total_students_of_def)
qed

end
